theory Spec2Isabelle
  imports Main
begin

section \<open>srcfacts: outcomes of a run\<close>

text \<open>
  The program is one function, \<open>main\<close>, around a hand-written XML parser that works on a
  \<open>std::string_view\<close> named \<open>content\<close>, a window into a static buffer that
  \<open>refillContent\<close> fills from standard input. The model follows the source block by
  block. A run ends in one of three ways: the report is printed and the exit status is 0; a
  diagnostic is printed and \<open>main\<close> returns 1; or the program leaves defined behaviour
  (an index outside the view, a \<open>remove_prefix\<close> longer than the view, an index outside
  the 128-bit name mask, a write past the end of the buffer, a read from the archive handle
  after \<open>archive_read_free\<close>). The last kind is kept apart as \<open>Undefined\<close>: nothing
  is claimed about what the compiled program does there.

  The model is the default build of the repository's CMake file (build type Release): the
  \<open>assert\<close> lines are compiled out. The \<open>TRACE\<close> lines are kept as a ghost list of
  events, which names the tokens the parser recognises. The counters are C++ \<open>int\<close>; they
  are modelled as unbounded integers, which agrees with the program on every input below
  \<open>2^31\<close> bytes (each increment consumes at least one byte of input).
\<close>

datatype fault = ViewIndex | ViewPrefix | BitsetIndex | BufferOverflow | UseAfterFree

datatype stop = Exit string | Undefined fault

type_synonym 'a result = "stop + 'a"

definition bindR :: "'a result \<Rightarrow> ('a \<Rightarrow> 'b result) \<Rightarrow> 'b result" where
  "bindR m f = (case m of Inl e \<Rightarrow> Inl e | Inr x \<Rightarrow> f x)"

section \<open>Constants\<close>

definition BLOCK_SIZE :: nat where
  "BLOCK_SIZE = 4096"

definition BUFFER_SIZE :: nat where
  "BUFFER_SIZE = 16 * 16 * BLOCK_SIZE"

definition WHITESPACE :: string where
  "WHITESPACE = [CHR '' '', CHR 0x0A, CHR 0x09, CHR 0x0D]"

definition NAMEEND :: string where
  "NAMEEND = [CHR ''>'', CHR '' '', CHR ''/'', CHR 0x22, CHR '':'', CHR ''='', CHR 0x0A, CHR 0x09, CHR 0x0D]"

text \<open>
  \<open>xmlNameMask\<close> is a \<open>std::bitset<128>\<close> built from a string of 128 digits whose leftmost
  digit is bit 127. Its set bits are 45, 46, 48..57, 65..90, 95 and 97..122. Indexing the
  bitset with a byte of value 128 or more is outside its range.
\<close>

definition xmlNameMask :: "char \<Rightarrow> bool result" where
  "xmlNameMask c =
     (if of_char c \<ge> (128::nat) then Inl (Undefined BitsetIndex)
      else Inr (c \<in> set ''-.0123456789ABCDEFGHIJKLMNOPQRSTUVWXYZ_abcdefghijklmnopqrstuvwxyz''))"

section \<open>The operations of std::string\_view the parser uses\<close>

text \<open>
  A position is \<open>nat option\<close>: \<open>None\<close> is \<open>npos\<close>, the largest \<open>size_t\<close>, which no
  view is long enough to reach. \<open>operator[]\<close> needs an index inside the view and
  \<open>remove_prefix\<close> a length of at most the size; \<open>npos\<close> never is.
\<close>

definition at :: "string \<Rightarrow> nat \<Rightarrow> char result" where
  "at content i = (if i < length content then Inr (content ! i) else Inl (Undefined ViewIndex))"

definition remove_prefix :: "string \<Rightarrow> nat option \<Rightarrow> string result" where
  "remove_prefix content n =
     (case n of
        None \<Rightarrow> Inl (Undefined ViewPrefix)
      | Some k \<Rightarrow> if k \<le> length content then Inr (drop k content) else Inl (Undefined ViewPrefix))"

text \<open>
  \<open>substr(pos, n)\<close> throws when \<open>pos\<close> is beyond the size; every call in the program has
  \<open>pos\<close> inside the view (0, or a position just found in it), so only the clamping of
  \<open>n\<close> is modelled.
\<close>

definition substr :: "string \<Rightarrow> nat \<Rightarrow> nat option \<Rightarrow> string" where
  "substr content pos n = (case n of None \<Rightarrow> drop pos content | Some k \<Rightarrow> take k (drop pos content))"

fun first_of :: "string \<Rightarrow> string \<Rightarrow> nat option" where
  "first_of cs [] = None"
| "first_of cs (x # xs) = (if x \<in> set cs then Some 0 else map_option Suc (first_of cs xs))"

fun first_not_of :: "string \<Rightarrow> string \<Rightarrow> nat option" where
  "first_not_of cs [] = None"
| "first_not_of cs (x # xs) = (if x \<notin> set cs then Some 0 else map_option Suc (first_not_of cs xs))"

fun find_sv :: "string \<Rightarrow> string \<Rightarrow> nat option" where
  "find_sv pat [] = (if pat = [] then Some 0 else None)"
| "find_sv pat (x # xs) =
     (if take (length pat) (x # xs) = pat then Some 0 else map_option Suc (find_sv pat xs))"

definition find_first_of :: "string \<Rightarrow> string \<Rightarrow> nat \<Rightarrow> nat option" where
  "find_first_of content cs pos =
     (if pos > length content then None
      else map_option (\<lambda>i. i + pos) (first_of cs (drop pos content)))"

definition find_first_not_of :: "string \<Rightarrow> string \<Rightarrow> nat option" where
  "find_first_not_of content cs = first_not_of cs content"

definition find_char :: "string \<Rightarrow> char \<Rightarrow> nat option" where
  "find_char content c = first_of [c] content"

text \<open>
  The chain \<open>content[i] == a && content[j] == b && ...\<close>: the comparisons run in the
  order written and stop at the first that fails; one that is reached with its index
  outside the view is undefined.
\<close>

fun matchAt :: "string \<Rightarrow> (nat \<times> char) list \<Rightarrow> bool result" where
  "matchAt content [] = Inr True"
| "matchAt content ((i, c) # ps) =
     (if i < length content
      then (if content ! i = c then matchAt content ps else Inr False)
      else Inl (Undefined ViewIndex))"

text \<open>\<open>content.remove_prefix(content.find_first_not_of(WHITESPACE))\<close>, as written.\<close>

definition skipWhitespace :: "string \<Rightarrow> string result" where
  "skipWhitespace content = remove_prefix content (find_first_not_of content WHITESPACE)"

section \<open>The byte source and refillContent\<close>

text \<open>
  The archive library is external. It is modelled by what its calls return: whether
  opening standard input and reading the first header succeed, and the list of results of
  the successive \<open>archive_read_data\<close> calls, each a block of bytes or a read error; when
  the list is used up the call returns 0. A block longer than the request is handed out in
  pieces of the requested length. The handle is a static pointer: null at first, allocated
  by the first call, and freed (but not reset) when a read returns 0.
\<close>

datatype read = Bytes string | ReadError

datatype handle = NotOpened | Opened | Freed

record byte_source =
  openOk :: bool
  reads :: "read list"
  inputArchive :: handle

fun archive_read_data :: "read list \<Rightarrow> nat \<Rightarrow> int \<times> string \<times> read list" where
  "archive_read_data [] n = (0, [], [])"
| "archive_read_data (ReadError # rs) n = (- 1, [], rs)"
| "archive_read_data (Bytes bs # rs) n =
     (if length bs \<le> n then (int (length bs), bs, rs)
      else (int n, take n bs, Bytes (drop n bs) # rs))"

text \<open>
  \<open>refillContent\<close> returns the number of bytes read (0 at the end of input, -1 on an
  error) and re-points \<open>content\<close> at the start of the buffer: the old view copied there,
  followed by the bytes read. The read is asked for \<open>BUFFER_SIZE - BLOCK_SIZE\<close> bytes and
  written at offset \<open>content.size()\<close> of the buffer, whatever that size is.
\<close>

definition refillContent :: "string \<Rightarrow> byte_source \<Rightarrow> (int \<times> string \<times> byte_source) result" where
  "refillContent content src =
     (if inputArchive src = Freed then Inl (Undefined UseAfterFree)
      else if inputArchive src = NotOpened \<and> \<not> openOk src
      then Inr (- 1, content, src\<lparr>inputArchive := Opened\<rparr>)
      else
        (case archive_read_data (reads src) (BUFFER_SIZE - BLOCK_SIZE) of
           (bytesRead, bytes, rest) \<Rightarrow>
             if length content + length bytes > BUFFER_SIZE then Inl (Undefined BufferOverflow)
             else if bytesRead < 0
             then Inr (- 1, content, src\<lparr>reads := rest, inputArchive := Opened\<rparr>)
             else Inr (bytesRead, content @ bytes,
                       src\<lparr>reads := rest,
                           inputArchive := (if bytesRead = 0 then Freed else Opened)\<rparr>)))"

section \<open>Parse events\<close>

text \<open>
  The events a \<open>TRACE\<close> build prints, with the views it prints. They do not influence the
  run; they record which tokens the parser recognised.
\<close>

datatype event =
    XMLDeclaration string "string option" "string option"
  | Doctype string
  | Characters string
  | Comment string
  | CData string
  | ProcessingInstruction string string
  | EndTag string string string
  | StartTag string string string
  | Namespace string string
  | Attribute string string string string

section \<open>The XML declaration and DOCTYPE\<close>

text \<open>
  The optional second attribute of the declaration (\<open>encoding\<close> or \<open>standalone\<close>), read
  when the view does not start with \<open>?\<close>.
\<close>

definition declAttribute2 :: "string \<Rightarrow> (string \<times> string option \<times> string option) result" where
  "declAttribute2 content =
     (case find_first_of content ''= '' 0 of
        None \<Rightarrow> Inl (Exit ''parser error: Incomplete attribute in XML declaration'')
      | Some nameEndPosition \<Rightarrow>
          let attr2 = substr content 0 (Some nameEndPosition) in
          bindR (remove_prefix content (Some nameEndPosition)) (\<lambda>content.
          bindR (skipWhitespace content) (\<lambda>content.
          bindR (remove_prefix content (Some 1)) (\<lambda>content.
          bindR (skipWhitespace content) (\<lambda>content.
          bindR (at content 0) (\<lambda>delimiter2.
          if delimiter2 \<noteq> CHR 0x22 \<and> delimiter2 \<noteq> CHR 0x27
          then Inl (Exit (''parser error: Invalid end delimiter for attribute '' @ attr2 @ '' in XML declaration''))
          else
            bindR (remove_prefix content (Some 1)) (\<lambda>content.
            (case find_char content delimiter2 of
               None \<Rightarrow> Inl (Exit (''parser error: Incomplete attribute '' @ attr2 @ '' in XML declaration''))
             | Some valueEndPosition \<Rightarrow>
                 let v = substr content 0 (Some valueEndPosition) in
                 if attr2 = ''encoding''
                 then bindR (remove_prefix content (Some (valueEndPosition + 1))) (\<lambda>content.
                      bindR (skipWhitespace content) (\<lambda>content. Inr (content, Some v, None)))
                 else if attr2 = ''standalone''
                 then bindR (remove_prefix content (Some (valueEndPosition + 1))) (\<lambda>content.
                      bindR (skipWhitespace content) (\<lambda>content. Inr (content, None, Some v)))
                 else Inl (Exit (''parser error: Invalid attribute '' @ attr2 @ '' in XML declaration''))))))))))"

text \<open>The optional third attribute: only \<open>standalone\<close>, and only if not yet given.\<close>

definition declAttribute3 :: "string \<Rightarrow> string option \<Rightarrow> (string \<times> string option) result" where
  "declAttribute3 content standalone =
     (case find_first_of content ''= '' 0 of
        None \<Rightarrow> Inl (Exit ''parser error: Incomplete attribute in XML declaration'')
      | Some nameEndPosition \<Rightarrow>
          let attr2 = substr content 0 (Some nameEndPosition) in
          bindR (remove_prefix content (Some nameEndPosition)) (\<lambda>content.
          bindR (skipWhitespace content) (\<lambda>content.
          bindR (remove_prefix content (Some 1)) (\<lambda>content.
          bindR (skipWhitespace content) (\<lambda>content.
          bindR (at content 0) (\<lambda>delimiter2.
          if delimiter2 \<noteq> CHR 0x22 \<and> delimiter2 \<noteq> CHR 0x27
          then Inl (Exit (''parser error: Invalid end delimiter for attribute '' @ attr2 @ '' in XML declaration''))
          else
            bindR (remove_prefix content (Some 1)) (\<lambda>content.
            (case find_char content delimiter2 of
               None \<Rightarrow> Inl (Exit (''parser error: Incomplete attribute '' @ attr2 @ '' in XML declaration''))
             | Some valueEndPosition \<Rightarrow>
                 let v = substr content 0 (Some valueEndPosition) in
                 if standalone = None \<and> attr2 = ''standalone''
                 then bindR (remove_prefix content (Some (valueEndPosition + 1))) (\<lambda>content.
                      bindR (skipWhitespace content) (\<lambda>content. Inr (content, Some v)))
                 else Inl (Exit (''parser error: Invalid attribute '' @ attr2 @ '' in XML declaration''))))))))))"

text \<open>
  The declaration itself, entered when the view starts with \<open><?xml\<close> and a space. The
  \<open>=\<close> after the name of \<open>version\<close> and the closing \<open>?>\<close> are removed by length, not
  compared (the comparisons are \<open>assert\<close> lines).
\<close>

definition parseXMLDeclaration :: "string \<Rightarrow> (string \<times> event) result" where
  "parseXMLDeclaration content =
     bindR (remove_prefix content (Some 5)) (\<lambda>content.
     bindR (skipWhitespace content) (\<lambda>content.
     let nameEndPosition = find_first_of content ''= '' 0;
         attr = substr content 0 nameEndPosition in
     bindR (remove_prefix content nameEndPosition) (\<lambda>content.
     bindR (skipWhitespace content) (\<lambda>content.
     bindR (remove_prefix content (Some 1)) (\<lambda>content.
     bindR (skipWhitespace content) (\<lambda>content.
     bindR (at content 0) (\<lambda>delimiter.
     if delimiter \<noteq> CHR 0x22 \<and> delimiter \<noteq> CHR 0x27
     then Inl (Exit ''parser error: Invalid start delimiter for version in XML declaration'')
     else
       bindR (remove_prefix content (Some 1)) (\<lambda>content.
       (case find_char content delimiter of
          None \<Rightarrow> Inl (Exit ''parser error: Invalid end delimiter for version in XML declaration'')
        | Some valueEndPosition \<Rightarrow>
            if attr \<noteq> ''version''
            then Inl (Exit ''parser error: Missing required first attribute version in XML declaration'')
            else
              let version = substr content 0 (Some valueEndPosition) in
              bindR (remove_prefix content (Some valueEndPosition)) (\<lambda>content.
              bindR (remove_prefix content (Some 1)) (\<lambda>content.
              bindR (skipWhitespace content) (\<lambda>content.
              bindR (at content 0) (\<lambda>c0.
              bindR (if c0 \<noteq> CHR ''?'' then declAttribute2 content else Inr (content, None, None))
                (\<lambda>(content, encoding, standalone).
              bindR (at content 0) (\<lambda>c0.
              bindR (if c0 \<noteq> CHR ''?'' then declAttribute3 content standalone
                     else Inr (content, standalone))
                (\<lambda>(content, standalone).
              bindR (remove_prefix content (Some 2)) (\<lambda>content.
              bindR (skipWhitespace content) (\<lambda>content.
              Inr (content, XMLDeclaration version encoding standalone)))))))))))))))))))"

text \<open>
  The scan of the DOCTYPE for the \<open>>\<close> that closes it. \<open>content[p]\<close> is read at a
  position \<open>find_first_of\<close> has just returned, which is inside the view. The result is the
  value of \<open>p\<close> when the loop ends: \<open>npos\<close> when no further character of the set is
  found, the position of the closing bracket otherwise.
\<close>

lemma first_of_less: "first_of cs xs = Some i \<Longrightarrow> i < length xs"
  by (induction xs arbitrary: i) (auto split: if_splits)

lemma find_first_of_bounds:
  "find_first_of content cs p = Some q \<Longrightarrow> p \<le> q \<and> q < length content"
  by (auto simp: find_first_of_def split: if_splits dest!: first_of_less)

function doctypeScan :: "string \<Rightarrow> nat \<Rightarrow> int \<Rightarrow> bool \<Rightarrow> bool \<Rightarrow> bool \<Rightarrow> nat option" where
  "doctypeScan content p depthAngleBrackets inSingleQuote inDoubleQuote inComment =
     (case find_first_of content [CHR ''<'', CHR ''>'', CHR 0x27, CHR 0x22, CHR ''-''] p of
        None \<Rightarrow> None
      | Some q \<Rightarrow>
          if take 4 (drop q content) = ''<!--''
          then doctypeScan content (q + 4) depthAngleBrackets inSingleQuote inDoubleQuote True
          else if take 3 (drop q content) = ''-->''
          then doctypeScan content (q + 3) depthAngleBrackets inSingleQuote inDoubleQuote False
          else if inComment
          then doctypeScan content (q + 1) depthAngleBrackets inSingleQuote inDoubleQuote inComment
          else
            let c = content ! q;
                opening = (c = CHR ''<'' \<and> \<not> inSingleQuote \<and> \<not> inDoubleQuote);
                closing = (\<not> opening \<and> c = CHR ''>'' \<and> \<not> inSingleQuote \<and> \<not> inDoubleQuote);
                single = (\<not> opening \<and> \<not> closing \<and> c = CHR 0x27);
                double = (\<not> opening \<and> \<not> closing \<and> \<not> single \<and> c = CHR 0x22);
                depthAngleBrackets' =
                  (if opening then depthAngleBrackets + 1
                   else if closing then depthAngleBrackets - 1 else depthAngleBrackets);
                inSingleQuote' = (if single then \<not> inSingleQuote else inSingleQuote);
                inDoubleQuote' = (if double then \<not> inDoubleQuote else inDoubleQuote)
            in if depthAngleBrackets' = 0 then Some q
               else doctypeScan content (q + 1) depthAngleBrackets' inSingleQuote' inDoubleQuote' inComment)"
  by pat_completeness auto
termination
  by (relation "measure (\<lambda>(content, p, _). Suc (length content) - p)")
     (auto dest!: find_first_of_bounds)

declare doctypeScan.simps [simp del]

definition parseDOCTYPE :: "string \<Rightarrow> (string \<times> event) result" where
  "parseDOCTYPE content =
     bindR (remove_prefix content (Some 9)) (\<lambda>content.
     let p = doctypeScan content 0 1 False False False;
         contents = substr content 0 p in
     bindR (remove_prefix content p) (\<lambda>content.
     bindR (remove_prefix content (Some 1)) (\<lambda>content.
     bindR (skipWhitespace content) (\<lambda>content.
     Inr (content, Doctype contents)))))"

text \<open>
  Everything between the first refill and the main loop: leading white space, the optional
  declaration, the optional DOCTYPE. No refill happens here: all of it is read from the
  bytes of the first read.
\<close>

definition preamble :: "string \<Rightarrow> (string \<times> event list) result" where
  "preamble content =
     bindR (skipWhitespace content) (\<lambda>content.
     bindR (matchAt content [(0, CHR ''<''), (1, CHR ''?''), (2, CHR ''x''), (3, CHR ''m''),
                             (4, CHR ''l''), (5, CHR '' '')]) (\<lambda>isDeclaration.
     bindR (if isDeclaration
            then bindR (parseXMLDeclaration content) (\<lambda>(content, e). Inr (content, [e]))
            else Inr (content, [])) (\<lambda>(content, es).
     bindR (matchAt content [(1, CHR ''!''), (0, CHR ''<''), (2, CHR ''D''), (3, CHR ''O''),
                             (4, CHR ''C''), (5, CHR ''T''), (6, CHR ''Y''), (7, CHR ''P''),
                             (8, CHR ''E''), (9, CHR '' '')]) (\<lambda>isDoctype.
     if isDoctype
     then bindR (parseDOCTYPE content) (\<lambda>(content, e). Inr (content, es @ [e]))
     else Inr (content, es)))))"

section \<open>Tokens of the main loop that need no refill\<close>

text \<open>
  The character entity references. The result is the pair of \<open>unescapedCharacter\<close> and
  \<open>escapedCharacter\<close>; the caller removes the length of the second from the view.
\<close>

definition parseEntity :: "string \<Rightarrow> (string \<times> string) result" where
  "parseEntity content =
     bindR (matchAt content [(1, CHR ''l''), (2, CHR ''t''), (3, CHR '';'')]) (\<lambda>isLt.
     if isLt then Inr (''<'', ''&lt;'')
     else
       bindR (matchAt content [(1, CHR ''g''), (2, CHR ''t''), (3, CHR '';'')]) (\<lambda>isGt.
       if isGt then Inr (''>'', ''&gt;'')
       else
         bindR (matchAt content [(1, CHR ''a''), (2, CHR ''m''), (3, CHR ''p''), (4, CHR '';'')])
           (\<lambda>isAmp.
         if isAmp then Inr (''&'', ''&amp;'') else Inr (''&'', ''&''))))"

text \<open>The processing instruction: no refill is made when \<open>?>\<close> is not in the view.\<close>

definition parsePI :: "string \<Rightarrow> (string \<times> event) result" where
  "parsePI content =
     bindR (remove_prefix content (Some 2)) (\<lambda>content.
     (case find_sv ''?>'' content of
        None \<Rightarrow> Inl (Exit ''parser error: Incomplete XML declaration'')
      | Some tagEndPosition \<Rightarrow>
          (case find_first_of content NAMEEND 0 of
             None \<Rightarrow> Inl (Exit ''parser error : Unterminated processing instruction'')
           | Some nameEndPosition \<Rightarrow>
               let target = substr content 0 (Some nameEndPosition);
                   data = substr content nameEndPosition
                            (if nameEndPosition \<le> tagEndPosition
                             then Some (tagEndPosition - nameEndPosition) else None) in
               bindR (remove_prefix content (Some tagEndPosition)) (\<lambda>content.
               bindR (remove_prefix content (Some 2)) (\<lambda>content.
               Inr (content, ProcessingInstruction target data))))))"

text \<open>
  The end tag. The name found is not compared with anything. The test
  \<open>nameEndPosition == content.size()\<close> is kept as written; \<open>content[nameEndPosition]\<close>
  with \<open>npos\<close> is outside the view.
\<close>

definition parseEndTag :: "string \<Rightarrow> (string \<times> event) result" where
  "parseEndTag content =
     bindR (remove_prefix content (Some 2)) (\<lambda>content.
     bindR (at content 0) (\<lambda>c0.
     if c0 = CHR '':'' then Inl (Exit ''parser error : Invalid end tag name'')
     else
       let nameEndPosition = find_first_of content NAMEEND 0 in
       if nameEndPosition = Some (length content)
       then Inl (Exit (''parser error : Unterminated end tag '' @ [CHR 0x27]
                       @ substr content 0 nameEndPosition @ [CHR 0x27]))
       else
         (case nameEndPosition of
            None \<Rightarrow> Inl (Undefined ViewIndex)
          | Some n \<Rightarrow>
              bindR (at content n) (\<lambda>c.
              let colonPosition = (if c = CHR '':'' then n else 0);
                  nameEndPosition = (if c = CHR '':'' then find_first_of content NAMEEND (n + 1)
                                     else Some n);
                  qName = substr content 0 nameEndPosition in
              if qName = [] then Inl (Exit ''parser error: EndTag: invalid element name'')
              else
                let prefix = substr qName 0 (Some colonPosition);
                    localName = substr qName (if colonPosition \<noteq> 0 then colonPosition + 1 else 0) None in
                bindR (remove_prefix content nameEndPosition) (\<lambda>content.
                bindR (skipWhitespace content) (\<lambda>content.
                bindR (remove_prefix content (Some 1)) (\<lambda>content.
                Inr (content, EndTag qName prefix localName))))))))"

section \<open>Attributes and namespaces of a start tag\<close>

definition parseNamespace :: "string \<Rightarrow> (string \<times> event) result" where
  "parseNamespace content =
     bindR (remove_prefix content (Some 5)) (\<lambda>content.
     (case find_char content (CHR ''='') of
        None \<Rightarrow> Inl (Exit ''parser error : incomplete namespace'')
      | Some nameEndPosition \<Rightarrow>
          bindR (at content 0) (\<lambda>c0.
          bindR (if c0 = CHR '':''
                 then bindR (remove_prefix content (Some 1)) (\<lambda>content.
                      Inr (content, nameEndPosition - 1, nameEndPosition - 1))
                 else Inr (content, nameEndPosition, 0)) (\<lambda>(content, nameEndPosition, prefixSize).
          let prefix = substr content 0 (Some prefixSize) in
          bindR (remove_prefix content (Some nameEndPosition)) (\<lambda>content.
          bindR (remove_prefix content (Some 1)) (\<lambda>content.
          bindR (skipWhitespace content) (\<lambda>content.
          if content = [] then Inl (Exit ''parser error : incomplete namespace'')
          else
            bindR (at content 0) (\<lambda>delimiter.
            if delimiter \<noteq> CHR 0x22 \<and> delimiter \<noteq> CHR 0x27
            then Inl (Exit ''parser error : incomplete namespace'')
            else
              bindR (remove_prefix content (Some 1)) (\<lambda>content.
              (case find_char content delimiter of
                 None \<Rightarrow> Inl (Exit ''parser error : incomplete namespace'')
               | Some valueEndPosition \<Rightarrow>
                   let uri = substr content 0 (Some valueEndPosition) in
                   bindR (remove_prefix content (Some valueEndPosition)) (\<lambda>content.
                   bindR (remove_prefix content (Some 1)) (\<lambda>content.
                   bindR (skipWhitespace content) (\<lambda>content.
                   Inr (content, Namespace prefix uri))))))))))))))"

text \<open>
  One attribute. The result carries the captured url (overwritten by an attribute whose
  local name is \<open>url\<close>). Inside an \<open>escape\<close> element the value of a \<open>char\<close> attribute
  is converted by \<open>strtol\<close> into a variable that is never read; nothing of it is kept.
\<close>

definition parseAttribute :: "string \<Rightarrow> string \<Rightarrow> (string \<times> string \<times> event) result" where
  "parseAttribute content url =
     (let nameEndPosition = find_first_of content NAMEEND 0 in
      if nameEndPosition = Some (length content)
      then Inl (Exit ''parser error : Empty attribute name'')
      else
        (case nameEndPosition of
           None \<Rightarrow> Inl (Undefined ViewIndex)
         | Some n \<Rightarrow>
             bindR (at content n) (\<lambda>c.
             let colonPosition = (if c = CHR '':'' then n else 0);
                 nameEndPosition = (if c = CHR '':'' then find_first_of content NAMEEND (n + 1)
                                    else Some n);
                 qName = substr content 0 nameEndPosition;
                 prefix = substr qName 0 (Some colonPosition);
                 localName = substr qName (if colonPosition \<noteq> 0 then colonPosition + 1 else 0) None in
             bindR (remove_prefix content nameEndPosition) (\<lambda>content.
             bindR (skipWhitespace content) (\<lambda>content.
             if content = []
             then Inl (Exit (''parser error : attribute '' @ qName @ '' incomplete attribute''))
             else
               bindR (at content 0) (\<lambda>c0.
               if c0 \<noteq> CHR ''=''
               then Inl (Exit (''parser error : attribute '' @ qName @ '' missing =''))
               else
                 bindR (remove_prefix content (Some 1)) (\<lambda>content.
                 bindR (skipWhitespace content) (\<lambda>content.
                 bindR (at content 0) (\<lambda>delimiter.
                 if delimiter \<noteq> CHR 0x22 \<and> delimiter \<noteq> CHR 0x27
                 then Inl (Exit (''parser error : attribute '' @ qName @ '' missing delimiter''))
                 else
                   bindR (remove_prefix content (Some 1)) (\<lambda>content.
                   (case find_char content delimiter of
                      None \<Rightarrow> Inl (Exit (''parser error : attribute '' @ qName @ '' missing delimiter''))
                    | Some valueEndPosition \<Rightarrow>
                        let v = substr content 0 (Some valueEndPosition);
                            url = (if localName = ''url'' then v else url) in
                        bindR (remove_prefix content (Some valueEndPosition)) (\<lambda>content.
                        bindR (remove_prefix content (Some 1)) (\<lambda>content.
                        bindR (skipWhitespace content) (\<lambda>content.
                        Inr (content, url, Attribute qName prefix localName v)))))))))))))))"

section \<open>Postconditions of a computation that may stop\<close>

text \<open>
  \<open>post m Q\<close> says that a result of \<open>m\<close>, if there is one, satisfies \<open>Q\<close>. The
  rules below take a computation apart along its \<open>bindR\<close> chain.
\<close>

definition post :: "'a result \<Rightarrow> ('a \<Rightarrow> bool) \<Rightarrow> bool" where
  "post m Q \<longleftrightarrow> (\<forall>x. m = Inr x \<longrightarrow> Q x)"

lemma bindR_cong [fundef_cong]:
  "m = m' \<Longrightarrow> (\<And>x. m' = Inr x \<Longrightarrow> f x = f' x) \<Longrightarrow> bindR m f = bindR m' f'"
  by (auto simp: bindR_def split: sum.splits)

lemma postD: "post m Q \<Longrightarrow> m = Inr x \<Longrightarrow> Q x"
  by (simp add: post_def)

lemma post_bindR: "post m (\<lambda>x. post (f x) Q) \<Longrightarrow> post (bindR m f) Q"
  by (auto simp: post_def bindR_def split: sum.splits)

lemma post_Inl: "post (Inl e) Q"
  by (simp add: post_def)

lemma post_Inr: "Q x \<Longrightarrow> post (Inr x) Q"
  by (simp add: post_def)

lemma post_if: "(b \<Longrightarrow> post m Q) \<Longrightarrow> (\<not> b \<Longrightarrow> post n Q) \<Longrightarrow> post (if b then m else n) Q"
  by simp

lemma post_option:
  "(x = None \<Longrightarrow> post m Q) \<Longrightarrow> (\<And>y. x = Some y \<Longrightarrow> post (f y) Q)
   \<Longrightarrow> post (case x of None \<Rightarrow> m | Some y \<Rightarrow> f y) Q"
  by (cases x) auto

lemma post_prod:
  "(\<And>a b. x = (a, b) \<Longrightarrow> post (f a b) Q) \<Longrightarrow> post (case x of (a, b) \<Rightarrow> f a b) Q"
  by (cases x) auto

lemma post_let: "post (f x) Q \<Longrightarrow> post (Let x f) Q"
  by simp

lemma post_remove_prefix:
  "(\<And>ys c. content = ys @ c \<Longrightarrow> n = Some (length ys) \<Longrightarrow> Q c)
   \<Longrightarrow> post (remove_prefix content n) Q"
  unfolding post_def remove_prefix_def
  by (auto split: option.splits if_splits) (metis append_take_drop_id length_take min.absorb2)

lemma first_not_of_less: "first_not_of cs xs = Some i \<Longrightarrow> i < length xs"
  by (induction xs arbitrary: i) (auto split: if_splits)

lemma post_skipWhitespace:
  "(\<And>ys c. content = ys @ c \<Longrightarrow> c \<noteq> [] \<Longrightarrow> Q c) \<Longrightarrow> post (skipWhitespace content) Q"
  unfolding skipWhitespace_def find_first_not_of_def
  by (rule post_remove_prefix) (auto dest!: first_not_of_less)

lemma post_at:
  "(\<And>c. i < length content \<Longrightarrow> c = content ! i \<Longrightarrow> Q c) \<Longrightarrow> post (at content i) Q"
  by (auto simp: post_def at_def)

lemma postI: "(\<And>x. m = Inr x \<Longrightarrow> Q x) \<Longrightarrow> post m Q"
  by (simp add: post_def)

lemma post_weaken: "post m P \<Longrightarrow> (\<And>x. P x \<Longrightarrow> Q x) \<Longrightarrow> post m Q"
  by (auto simp: post_def)

lemma matchAt_True:
  "matchAt c ps = Inr True \<Longrightarrow> \<forall>(i, ch) \<in> set ps. i < length c \<and> c ! i = ch"
  by (induction ps) (auto split: if_splits)

lemma post_matchAt:
  assumes "\<And>b. (b \<Longrightarrow> \<forall>(i, ch) \<in> set ps. i < length cont \<and> cont ! i = ch) \<Longrightarrow> Q b"
  shows "post (matchAt cont ps) Q"
proof (rule postI)
  fix x
  assume "matchAt cont ps = Inr x"
  then have "\<forall>(i, ch) \<in> set ps. i < length cont \<and> cont ! i = ch" if x
    using that matchAt_True [of cont ps] by simp
  then show "Q x" by (rule assms)
qed

lemma post_xmlNameMask: "(\<And>b. Q b) \<Longrightarrow> post (xmlNameMask x) Q"
  by (simp add: post_def)

lemmas post_rules = post_bindR post_Inl post_Inr post_if post_option post_prod post_let
  post_remove_prefix post_skipWhitespace post_at post_matchAt post_xmlNameMask

lemma parseNamespace_shrinks:
  "post (parseNamespace content) (\<lambda>(c, e). \<exists>ys. content = ys @ c \<and> 5 \<le> length ys)"
  unfolding parseNamespace_def
  apply (intro post_rules | simp_all only: prod.case)+
  apply auto
  done

lemma parseAttribute_shrinks:
  "post (parseAttribute content url) (\<lambda>(c, u, e). \<exists>ys. content = ys @ c \<and> 3 \<le> length ys)"
  unfolding parseAttribute_def
  apply (intro post_rules | simp_all only: prod.case)+
  apply auto
  done

section \<open>The attribute loop\<close>

text \<open>
  The loop \<open>while (xmlNameMask[content[0]])\<close> over the attributes and namespaces of a
  start tag. Each round consumes at least three bytes of the view.
\<close>

function parseAttributes ::
  "bool \<Rightarrow> string \<Rightarrow> string \<Rightarrow> event list \<Rightarrow> (string \<times> string \<times> event list) result" where
  "parseAttributes inEscape content url es =
     bindR (at content 0) (\<lambda>c0.
     bindR (xmlNameMask c0) (\<lambda>isNameChar.
     if \<not> isNameChar then Inr (content, url, es)
     else
       bindR (matchAt content [(0, CHR ''x''), (1, CHR ''m''), (2, CHR ''l''), (3, CHR ''n''),
                               (4, CHR ''s'')]) (\<lambda>isXmlns.
       bindR (if isXmlns then bindR (at content 5) (\<lambda>c5. Inr (c5 = CHR '':'' \<or> c5 = CHR ''=''))
              else Inr False) (\<lambda>isNamespace.
       if isNamespace
       then bindR (parseNamespace content) (\<lambda>(content', e).
            parseAttributes inEscape content' url (es @ [e]))
       else bindR (parseAttribute content url) (\<lambda>(content', url', e).
            parseAttributes inEscape content' url' (es @ [e]))))))"
  by pat_completeness auto
termination
proof (relation "measure (\<lambda>(inEscape, content, url, es). length content)")
  show "wf (measure (\<lambda>(inEscape, content, url, es). length content))"
    by simp
next
  fix inEscape :: bool and content url :: string and es :: "event list"
    and x :: "string \<times> event" and content' e
  assume "parseNamespace content = Inr x" "(content', e) = x"
  then have "\<exists>ys. content = ys @ content' \<and> 5 \<le> length ys"
    using postD [OF parseNamespace_shrinks, of content x] by auto
  then show "((inEscape, content', url, es @ [e]), (inEscape, content, url, es))
             \<in> measure (\<lambda>(inEscape, content, url, es). length content)"
    by auto
next
  fix inEscape :: bool and content url :: string and es :: "event list"
    and x :: "string \<times> string \<times> event" and content' y url' e
  assume "parseAttribute content url = Inr x" "(content', y) = x" "(url', e) = y"
  then have "\<exists>ys. content = ys @ content' \<and> 3 \<le> length ys"
    using postD [OF parseAttribute_shrinks, of content url x] by auto
  then show "((inEscape, content', url', es @ [e]), (inEscape, content, url, es))
             \<in> measure (\<lambda>(inEscape, content, url, es). length content)"
    by auto
qed

declare parseAttributes.simps [simp del]

section \<open>The start tag\<close>

text \<open>
  How the tag ends after its attributes: \<open>>\<close>, \<open>/>\<close>, or neither (the program then
  leaves the view where it is and goes on with the next iteration).
\<close>

datatype tag_end = Opens | SelfCloses | Neither

record start_tag =
  rest :: string
  qName :: string
  prefix :: string
  localName :: string
  newUrl :: string
  attributes :: "event list"
  tagEnd :: tag_end

definition parseStartTag :: "string \<Rightarrow> string \<Rightarrow> start_tag result" where
  "parseStartTag content url =
     bindR (remove_prefix content (Some 1)) (\<lambda>content.
     bindR (at content 0) (\<lambda>c0.
     if c0 = CHR '':'' then Inl (Exit ''parser error : Invalid start tag name'')
     else
       let nameEndPosition = find_first_of content NAMEEND 0 in
       if nameEndPosition = Some (length content)
       then Inl (Exit (''parser error : Unterminated start tag '' @ [CHR 0x27]
                       @ substr content 0 nameEndPosition @ [CHR 0x27]))
       else
         (case nameEndPosition of
            None \<Rightarrow> Inl (Undefined ViewIndex)
          | Some n \<Rightarrow>
              bindR (at content n) (\<lambda>c.
              let colonPosition = (if c = CHR '':'' then n else 0);
                  nameEndPosition = (if c = CHR '':'' then find_first_of content NAMEEND (n + 1)
                                     else Some n);
                  qName = substr content 0 nameEndPosition in
              if qName = [] then Inl (Exit ''parser error: StartTag: invalid element name'')
              else
                let prefix = substr qName 0 (Some colonPosition);
                    localName = substr qName (if colonPosition \<noteq> 0 then colonPosition + 1 else 0)
                                  nameEndPosition;
                    inEscape = (localName = ''escape'') in
                bindR (remove_prefix content nameEndPosition) (\<lambda>content.
                bindR (skipWhitespace content) (\<lambda>content.
                bindR (parseAttributes inEscape content url []) (\<lambda>(content, url, es).
                bindR (at content 0) (\<lambda>c0.
                if c0 = CHR ''>''
                then bindR (remove_prefix content (Some 1)) (\<lambda>content.
                     Inr \<lparr>rest = content, qName = qName, prefix = prefix, localName = localName,
                          newUrl = url, attributes = es, tagEnd = Opens\<rparr>)
                else
                  bindR (matchAt content [(0, CHR ''/''), (1, CHR ''>'')]) (\<lambda>selfClosing.
                  if selfClosing
                  then bindR (remove_prefix content (Some 2)) (\<lambda>content.
                       Inr \<lparr>rest = content, qName = qName, prefix = prefix, localName = localName,
                            newUrl = url, attributes = es, tagEnd = SelfCloses\<rparr>)
                  else Inr \<lparr>rest = content, qName = qName, prefix = prefix, localName = localName,
                           newUrl = url, attributes = es, tagEnd = Neither\<rparr>)))))))))"

section \<open>The state of main\<close>

record parser =
  content :: string
  source :: byte_source
  doneReading :: bool
  depth :: int
  url :: string
  textSize :: int
  loc :: int
  exprCount :: int
  functionCount :: int
  classCount :: int
  unitCount :: int
  declCount :: int
  commentCount :: int
  totalBytes :: int
  trace :: "event list"

text \<open>One loop iteration either goes on to the next or leaves the loop by \<open>break\<close>.\<close>

datatype flow = Next parser | Break parser

text \<open>
  The call of \<open>refillContent\<close> with the three statements that follow it at each of its
  call sites inside the loops.
\<close>

definition refill :: "parser \<Rightarrow> parser result" where
  "refill st =
     bindR (refillContent (content st) (source st)) (\<lambda>(bytesRead, c, src).
     if bytesRead < 0 then Inl (Exit ''parser error : File input error'')
     else Inr (st\<lparr>content := c, source := src,
                  doneReading := (if bytesRead = 0 then True else doneReading st),
                  totalBytes := totalBytes st + bytesRead\<rparr>))"

definition characterEntity :: "parser \<Rightarrow> flow result" where
  "characterEntity st =
     bindR (parseEntity (content st)) (\<lambda>(unescapedCharacter, escapedCharacter).
     bindR (remove_prefix (content st) (Some (length escapedCharacter))) (\<lambda>c.
     Inr (Next (st\<lparr>content := c, textSize := textSize st + 1,
                    trace := trace st @ [Characters unescapedCharacter]\<rparr>))))"

definition characterRun :: "parser \<Rightarrow> flow result" where
  "characterRun st =
     (let characterEndPosition = find_first_of (content st) ''<&'' 0;
          characters = substr (content st) 0 characterEndPosition in
      bindR (remove_prefix (content st) (Some (length characters))) (\<lambda>c.
      Inr (Next (st\<lparr>content := c,
                     loc := loc st + int (count_list characters (CHR 0x0A)),
                     textSize := textSize st + int (length characters),
                     trace := trace st @ [Characters characters]\<rparr>))))"

text \<open>
  Finding the end of a comment or CDATA section: when the terminator is not in the view,
  one refill is made, whatever the state of the input, and the search is repeated once.
\<close>

definition findOrRefill :: "string \<Rightarrow> string \<Rightarrow> parser \<Rightarrow> (parser \<times> nat) result" where
  "findOrRefill terminator diagnostic st =
     (case find_sv terminator (content st) of
        Some tagEndPosition \<Rightarrow> Inr (st, tagEndPosition)
      | None \<Rightarrow>
          bindR (refill st) (\<lambda>st.
          (case find_sv terminator (content st) of
             None \<Rightarrow> Inl (Exit diagnostic)
           | Some tagEndPosition \<Rightarrow> Inr (st, tagEndPosition))))"

definition xmlComment :: "parser \<Rightarrow> parser result" where
  "xmlComment st =
     bindR (remove_prefix (content st) (Some 4)) (\<lambda>c.
     bindR (findOrRefill ''-->'' ''parser error : Unterminated XML comment'' (st\<lparr>content := c\<rparr>))
       (\<lambda>(st, tagEndPosition).
     let comment = substr (content st) 0 (Some tagEndPosition) in
     bindR (remove_prefix (content st) (Some tagEndPosition)) (\<lambda>c.
     bindR (remove_prefix c (Some 3)) (\<lambda>c.
     Inr (st\<lparr>content := c, trace := trace st @ [Comment comment]\<rparr>)))))"

definition cdata :: "parser \<Rightarrow> parser result" where
  "cdata st =
     bindR (remove_prefix (content st) (Some 9)) (\<lambda>c.
     bindR (findOrRefill '']]>'' ''parser error : Unterminated CDATA'' (st\<lparr>content := c\<rparr>))
       (\<lambda>(st, tagEndPosition).
     let characters = substr (content st) 0 (Some tagEndPosition) in
     bindR (remove_prefix (content st) (Some tagEndPosition)) (\<lambda>c.
     bindR (remove_prefix c (Some 3)) (\<lambda>c.
     Inr (st\<lparr>content := c,
               textSize := textSize st + int (length characters),
               loc := loc st + int (count_list characters (CHR 0x0A)),
               trace := trace st @ [CData characters]\<rparr>)))))"

definition processingInstruction :: "parser \<Rightarrow> flow result" where
  "processingInstruction st =
     bindR (parsePI (content st)) (\<lambda>(c, e).
     Inr (Next (st\<lparr>content := c, trace := trace st @ [e]\<rparr>)))"

definition endTag :: "parser \<Rightarrow> flow result" where
  "endTag st =
     bindR (parseEndTag (content st)) (\<lambda>(c, e).
     let st = st\<lparr>content := c, depth := depth st - 1, trace := trace st @ [e]\<rparr> in
     Inr (if depth st = 0 then Break st else Next st))"

definition countElement :: "string \<Rightarrow> parser \<Rightarrow> parser" where
  "countElement name st =
     (if name = ''expr'' then st\<lparr>exprCount := exprCount st + 1\<rparr>
      else if name = ''decl'' then st\<lparr>declCount := declCount st + 1\<rparr>
      else if name = ''comment'' then st\<lparr>commentCount := commentCount st + 1\<rparr>
      else if name = ''function'' then st\<lparr>functionCount := functionCount st + 1\<rparr>
      else if name = ''unit'' then st\<lparr>unitCount := unitCount st + 1\<rparr>
      else if name = ''class'' then st\<lparr>classCount := classCount st + 1\<rparr>
      else st)"

definition startTag :: "parser \<Rightarrow> flow result" where
  "startTag st =
     bindR (parseStartTag (content st) (url st)) (\<lambda>t.
     let st = (countElement (localName t) st)
                \<lparr>content := rest t, url := newUrl t,
                 trace := trace st @ [StartTag (qName t) (prefix t) (localName t)] @ attributes t\<rparr> in
     (case tagEnd t of
        Opens \<Rightarrow> Inr (Next (st\<lparr>depth := depth st + 1\<rparr>))
      | SelfCloses \<Rightarrow>
          let st = st\<lparr>trace := trace st @ [EndTag (qName t) (prefix t) (localName t)]\<rparr> in
          Inr (if depth st = 0 then Break st else Next st)
      | Neither \<Rightarrow> Inr (Next st)))"

text \<open>The choice of the token by the first bytes of the view, in the order of the source.\<close>

definition dispatch :: "parser \<Rightarrow> flow result" where
  "dispatch st =
     bindR (at (content st) 0) (\<lambda>c0.
     if c0 = CHR ''&'' then characterEntity st
     else if c0 \<noteq> CHR ''<'' then characterRun st
     else
       bindR (matchAt (content st) [(1, CHR ''!''), (2, CHR ''-''), (3, CHR ''-'')]) (\<lambda>isComment.
       if isComment then bindR (xmlComment st) (\<lambda>st. Inr (Next st))
       else
         bindR (matchAt (content st) [(1, CHR ''!''), (2, CHR ''[''), (3, CHR ''C''), (4, CHR ''D''),
                                      (5, CHR ''A''), (6, CHR ''T''), (7, CHR ''A''), (8, CHR ''['')])
           (\<lambda>isCDATA.
         if isCDATA then bindR (cdata st) (\<lambda>st. Inr (Next st))
         else
           bindR (matchAt (content st) [(1, CHR ''?'')]) (\<lambda>isPI.
           if isPI then processingInstruction st
           else
             bindR (matchAt (content st) [(1, CHR ''/'')]) (\<lambda>isEndTag.
             if isEndTag then endTag st
             else if c0 = CHR ''<'' then startTag st
             else Inl (Exit ''parser error : invalid XML document''))))))"

text \<open>
  One iteration of \<open>while (true)\<close>: the test at its top (leave when the input is done and
  the view is empty; refill when the input is not done and the view is shorter than a
  block), then the token.
\<close>

definition iteration :: "parser \<Rightarrow> flow result" where
  "iteration st =
     (if doneReading st then (if content st = [] then Inr (Break st) else dispatch st)
      else if length (content st) < BLOCK_SIZE then bindR (refill st) dispatch
      else dispatch st)"

section \<open>The bytes still to be parsed\<close>

text \<open>
  The bytes the source has not handed out yet, and the logical stream of a state: the
  view followed by those bytes. A refill moves bytes from the second part to the first;
  every token removes a non-empty prefix of the stream, which is why the loops end.
\<close>

fun unread :: "read list \<Rightarrow> string" where
  "unread [] = []"
| "unread (Bytes bs # rs) = bs @ unread rs"
| "unread (ReadError # rs) = unread rs"

definition stream :: "parser \<Rightarrow> string" where
  "stream st = content st @ unread (reads (source st))"

fun state_of :: "flow \<Rightarrow> parser" where
  "state_of (Next st) = st"
| "state_of (Break st) = st"

lemma archive_read_data_unread:
  "archive_read_data rs n = (k, bytes, rs') \<Longrightarrow> bytes @ unread rs' = unread rs"
  by (induction rs n rule: archive_read_data.induct) (auto split: if_splits)

lemma post_refill:
  assumes "\<And>bytes src' dr tb.
      bytes @ unread (reads src') = unread (reads (source st)) \<Longrightarrow>
      Q (st\<lparr>content := content st @ bytes, source := src', doneReading := dr, totalBytes := tb\<rparr>)"
  shows "post (refill st) Q"
proof -
  have "Q st'" if "refill st = Inr st'" for st'
  proof -
    from that obtain k bytes rs' where
      r: "archive_read_data (reads (source st)) (BUFFER_SIZE - BLOCK_SIZE) = (k, bytes, rs')"
      and st': "st' = st\<lparr>content := content st @ bytes,
                 source := (source st)\<lparr>reads := rs', inputArchive := (if k = 0 then Freed else Opened)\<rparr>,
                 doneReading := (if k = 0 then True else doneReading st),
                 totalBytes := totalBytes st + k\<rparr>"
      by (auto simp: refill_def refillContent_def bindR_def split: sum.splits prod.splits if_splits)
    from r have "bytes @ unread rs' = unread (reads (source st))"
      by (rule archive_read_data_unread)
    then show ?thesis
      unfolding st' by (intro assms) simp
  qed
  then show ?thesis by (simp add: post_def)
qed

lemma post_findOrRefill:
  assumes "\<And>bytes src' dr tb n.
      bytes @ unread (reads src') = unread (reads (source st)) \<Longrightarrow>
      find_sv pat (content st @ bytes) = Some n \<Longrightarrow>
      Q (st\<lparr>content := content st @ bytes, source := src', doneReading := dr, totalBytes := tb\<rparr>, n)"
  shows "post (findOrRefill pat msg st) Q"
proof (cases "find_sv pat (content st)")
  case (Some n)
  then show ?thesis
    using assms [where bytes = "[]" and src' = "source st" and n = n
        and dr = "doneReading st" and tb = "totalBytes st"]
    by (simp add: findOrRefill_def post_def)
next
  case None
  have "post (refill st) (\<lambda>st'. post (case find_sv pat (content st') of
      None \<Rightarrow> Inl (Exit msg) | Some n \<Rightarrow> Inr (st', n)) Q)"
    by (rule post_refill) (auto intro!: post_option post_Inl post_Inr assms)
  with None show ?thesis
    by (simp add: findOrRefill_def post_bindR)
qed

text \<open>\<open>eats st st'\<close>: going from \<open>st\<close> to \<open>st'\<close> removed a non-empty prefix of the stream.\<close>

definition eats :: "parser \<Rightarrow> parser \<Rightarrow> bool" where
  "eats st st' \<longleftrightarrow> (\<exists>ys. ys \<noteq> [] \<and> stream st = ys @ stream st')"

lemma eatsI:
  "content st = ys @ content st' \<Longrightarrow> ys \<noteq> [] \<Longrightarrow> source st' = source st \<Longrightarrow> eats st st'"
  by (auto simp: eats_def stream_def)

lemma eats_refillI:
  "content st @ bytes = ys @ content st' \<Longrightarrow> ys \<noteq> [] \<Longrightarrow>
   bytes @ unread (reads (source st')) = unread (reads (source st)) \<Longrightarrow> eats st st'"
  unfolding eats_def stream_def
  apply (rule exI[of _ ys])
  apply (metis append.assoc)
  done

lemma parseEntity_length:
  "post (parseEntity c) (\<lambda>(u, e). e \<noteq> [])"
  unfolding parseEntity_def
  apply (intro post_rules | simp_all only: prod.case)+
  apply auto
  done

lemma characterEntity_eats: "post (characterEntity st) (\<lambda>fl. eats st (state_of fl))"
  unfolding characterEntity_def
  apply (intro post_rules post_weaken [OF parseEntity_length] | simp_all only: prod.case)+
  apply (auto intro!: eatsI)
  done

lemma text_run_nonempty:
  "c \<noteq> [] \<Longrightarrow> c ! 0 \<notin> set cs \<Longrightarrow> substr c 0 (find_first_of c cs 0) \<noteq> []"
  by (cases c) (auto simp: substr_def find_first_of_def split: option.splits)

lemma characterRun_eats:
  assumes "content st \<noteq> []" "content st ! 0 \<noteq> CHR ''<''" "content st ! 0 \<noteq> CHR ''&''"
  shows "post (characterRun st) (\<lambda>fl. eats st (state_of fl))"
proof -
  have ne: "substr (content st) 0 (find_first_of (content st) ''<&'' 0) \<noteq> []"
    using assms by (intro text_run_nonempty) auto
  show ?thesis
    unfolding characterRun_def
    apply (intro post_rules | simp_all only: prod.case)+
    using ne apply (auto intro!: eatsI)
    done
qed

lemma xmlComment_eats: "post (xmlComment st) (\<lambda>st'. eats st st')"
  unfolding xmlComment_def
  apply (intro post_rules post_findOrRefill | simp_all only: prod.case)+
  apply (rule eats_refillI)
  apply auto
  done


lemma cdata_eats: "post (cdata st) (\<lambda>st'. eats st st')"
  unfolding cdata_def
  apply (intro post_rules post_findOrRefill | simp_all only: prod.case)+
  apply (rule eats_refillI)
  apply auto
  done

lemma parsePI_shrinks: "post (parsePI c) (\<lambda>(c', e). \<exists>ys. c = ys @ c' \<and> ys \<noteq> [])"
  unfolding parsePI_def
  apply (intro post_rules | simp_all only: prod.case)+
  apply auto
  done

lemma processingInstruction_eats: "post (processingInstruction st) (\<lambda>fl. eats st (state_of fl))"
  unfolding processingInstruction_def
  apply (intro post_rules post_weaken [OF parsePI_shrinks] | simp_all only: prod.case)+
  apply (auto intro!: eatsI)
  done

lemma parseEndTag_shrinks: "post (parseEndTag c) (\<lambda>(c', e). \<exists>ys. c = ys @ c' \<and> ys \<noteq> [])"
  unfolding parseEndTag_def
  apply (intro post_rules | simp_all only: prod.case)+
  apply auto
  done

lemma endTag_eats: "post (endTag st) (\<lambda>fl. eats st (state_of fl))"
  unfolding endTag_def
  apply (intro post_rules post_weaken [OF parseEndTag_shrinks] | simp_all only: prod.case)+
  apply (auto intro!: eatsI)
  done

lemma parseAttributes_suffix:
  "post (parseAttributes inEscape cont u es) (\<lambda>(c', u', es'). \<exists>ys. cont = ys @ c')"
proof (induction "length cont" arbitrary: cont u es rule: less_induct)
  case less
  show ?case
    apply (subst parseAttributes.simps)
    apply (intro post_rules post_weaken [OF parseNamespace_shrinks]
        post_weaken [OF parseAttribute_shrinks] | simp_all only: prod.case)+
    apply (auto intro!: post_weaken [OF less])
    done
qed

lemma parseStartTag_shrinks:
  "post (parseStartTag cont u) (\<lambda>t. \<exists>ys. cont = ys @ rest t \<and> ys \<noteq> [])"
  unfolding parseStartTag_def
  apply (intro post_rules post_weaken [OF parseAttributes_suffix]
      | simp_all only: prod.case)+
  apply auto
  done

lemma content_countElement [simp]: "content (countElement n st) = content st"
  and source_countElement [simp]: "source (countElement n st) = source st"
  by (simp_all add: countElement_def)

lemma startTag_eats: "post (startTag st) (\<lambda>fl. eats st (state_of fl))"
  unfolding startTag_def
  apply (intro post_rules post_weaken [OF parseStartTag_shrinks] | simp_all only: prod.case)+
  apply (auto intro!: eatsI post_Inr split: tag_end.splits simp: Let_def)
  done

lemma dispatch_eats: "post (dispatch st) (\<lambda>fl. eats st (state_of fl))"
  unfolding dispatch_def
  apply (intro post_rules | simp_all only: prod.case)+
  apply (auto intro!: post_rules characterEntity_eats characterRun_eats
      post_weaken [OF xmlComment_eats] post_weaken [OF cdata_eats]
      processingInstruction_eats endTag_eats startTag_eats)
  done


lemma refill_stream: "post (refill st) (\<lambda>st'. stream st' = stream st)"
  by (rule post_refill) (simp add: stream_def)

lemma iteration_eats:
  "post (iteration st) (\<lambda>fl. case fl of Next st' \<Rightarrow> eats st st' | Break st' \<Rightarrow> True)"
proof -
  have d: "post (dispatch s) (\<lambda>fl. case fl of Next st' \<Rightarrow> eats st st' | Break st' \<Rightarrow> True)"
    if "stream s = stream st" for s
    using that by (intro post_weaken [OF dispatch_eats]) (auto simp: eats_def split: flow.splits)
  show ?thesis
    unfolding iteration_def
    by (intro post_if post_Inr post_bindR post_weaken [OF refill_stream] d) simp_all
qed

section \<open>The main loop, the trailing comments, and main\<close>

function mainLoop :: "parser \<Rightarrow> parser result" where
  "mainLoop st =
     bindR (iteration st) (\<lambda>fl. case fl of Break st' \<Rightarrow> Inr st' | Next st' \<Rightarrow> mainLoop st')"
  by pat_completeness auto
termination
proof (relation "measure (\<lambda>st. length (stream st))")
  show "wf (measure (\<lambda>st. length (stream st)))"
    by simp
next
  fix st fl st'
  assume "iteration st = Inr fl" "fl = Next st'"
  then have "eats st st'"
    using postD [OF iteration_eats, of st fl] by simp
  then show "(st', st) \<in> measure (\<lambda>st. length (stream st))"
    by (auto simp: eats_def)
qed

declare mainLoop.simps [simp del]

text \<open>
  \<open>content.remove_prefix(p == npos ? content.size() : p)\<close> with \<open>p\<close> the position of
  the first byte that is not white space.
\<close>

definition skipTrailing :: "string \<Rightarrow> string" where
  "skipTrailing c =
     (case find_first_not_of c WHITESPACE of None \<Rightarrow> drop (length c) c | Some p \<Rightarrow> drop p c)"

lemma skipTrailing_suffix: "\<exists>ys. c = ys @ skipTrailing c"
  unfolding skipTrailing_def
  by (metis append_take_drop_id option.case_eq_if)

function trailingComments :: "parser \<Rightarrow> parser result" where
  "trailingComments st =
     bindR (if content st = [] then Inr False
            else matchAt (content st) [(0, CHR ''<''), (1, CHR ''!''), (2, CHR ''-''), (3, CHR ''-'')])
       (\<lambda>isComment.
     if isComment
     then bindR (xmlComment st) (\<lambda>st'.
          trailingComments (st'\<lparr>content := skipTrailing (content st')\<rparr>))
     else Inr st)"
  by pat_completeness auto
termination
proof (relation "measure (\<lambda>st. length (stream st))")
  show "wf (measure (\<lambda>st. length (stream st)))"
    by simp
next
  fix st :: parser and isComment st'
  assume "xmlComment st = Inr st'"
  then have "eats st st'"
    using postD [OF xmlComment_eats, of st st'] by simp
  then obtain zs where "zs \<noteq> []" "stream st = zs @ stream st'"
    by (auto simp: eats_def)
  then have less: "length (stream st') < length (stream st)"
    by simp
  obtain ys where "content st' = ys @ skipTrailing (content st')"
    using skipTrailing_suffix by blast
  then have "length (skipTrailing (content st')) \<le> length (content st')"
    by (metis length_append le_add2)
  then have "length (stream (st'\<lparr>content := skipTrailing (content st')\<rparr>)) \<le> length (stream st')"
    by (simp add: stream_def)
  with less show "(st'\<lparr>content := skipTrailing (content st')\<rparr>, st) \<in> measure (\<lambda>st. length (stream st))"
    by simp
qed

declare trailingComments.simps [simp del]

text \<open>
  The parse: the first refill, the preamble, the main loop, the trailing material. The
  handle of the byte source starts as the null pointer.
\<close>

definition stdin :: "bool \<Rightarrow> read list \<Rightarrow> byte_source" where
  "stdin ok rs = \<lparr>openOk = ok, reads = rs, inputArchive = NotOpened\<rparr>"

definition parse :: "byte_source \<Rightarrow> parser result" where
  "parse src =
     bindR (refillContent [] src) (\<lambda>(bytesRead, c, src).
     if bytesRead < 0 then Inl (Exit ''parser error : File input error'')
     else if bytesRead = 0 then Inl (Exit ''parser error : Empty file'')
     else
       bindR (preamble c) (\<lambda>(c, es).
       bindR (mainLoop \<lparr>content = c, source = src, doneReading = False, depth = 0, url = [],
                        textSize = 0, loc = 0, exprCount = 0, functionCount = 0, classCount = 0,
                        unitCount = 0, declCount = 0, commentCount = 0, totalBytes = bytesRead,
                        trace = es\<rparr>) (\<lambda>st.
       bindR (trailingComments (st\<lparr>content := skipTrailing (content st)\<rparr>)) (\<lambda>st.
       if content st \<noteq> [] then Inl (Exit ''parser error : extra content at end of document'')
       else Inr st))))"

text \<open>
  The report: the values the table prints, in its order (the widths of the columns and
  the timings on the diagnostic stream are not modelled).
\<close>

record report =
  reportUrl :: string
  reportCharacters :: int
  reportLOC :: int
  reportFiles :: int
  reportClasses :: int
  reportFunctions :: int
  reportDeclarations :: int
  reportExpressions :: int
  reportComments :: int

definition makeReport :: "parser \<Rightarrow> report" where
  "makeReport st =
     \<lparr>reportUrl = url st, reportCharacters = textSize st, reportLOC = loc st,
      reportFiles = max (unitCount st - 1) 1, reportClasses = classCount st,
      reportFunctions = functionCount st, reportDeclarations = declCount st,
      reportExpressions = exprCount st, reportComments = commentCount st\<rparr>"

text \<open>
  What a run of \<open>main\<close> leaves behind: the exit status, what was written to standard
  output (nothing, or the report) and the diagnostic of an error exit; or no defined
  behaviour.
\<close>

datatype outcome = Finished int "report option" string | Faulted fault

definition main :: "byte_source \<Rightarrow> outcome" where
  "main src =
     (case parse src of
        Inl (Exit diagnostic) \<Rightarrow> Finished 1 None diagnostic
      | Inl (Undefined f) \<Rightarrow> Faulted f
      | Inr st \<Rightarrow> Finished 0 (Some (makeReport st)) [])"

section \<open>Chunked delivery and the newlines of text events\<close>

text \<open>
  A byte source that hands out the bytes \<open>bs\<close> in reads of \<open>k\<close> bytes (the last one
  may be shorter).
\<close>

function chunked :: "nat \<Rightarrow> string \<Rightarrow> read list" where
  "chunked k bs = (if k = 0 \<or> bs = [] then [] else Bytes (take k bs) # chunked k (drop k bs))"
  by pat_completeness auto
termination
  by (relation "measure (\<lambda>(k, bs). length bs)") auto

declare chunked.simps [simp del]

text \<open>
  The number of \<open>\n\<close> bytes an event carries as text: those of a CHARACTERS or CDATA
  event, none for a tag, an attribute, a namespace, a comment, a processing instruction,
  the declaration or the DOCTYPE. \<open>surplus\<close> is the distance between the LOC counter and
  the newlines of the text events so far.
\<close>

fun newlinesOf :: "event \<Rightarrow> nat" where
  "newlinesOf (Characters cs) = count_list cs (CHR 0x0A)"
| "newlinesOf (CData cs) = count_list cs (CHR 0x0A)"
| "newlinesOf _ = 0"

definition textNewlines :: "event list \<Rightarrow> int" where
  "textNewlines es = int (sum_list (map newlinesOf es))"

definition surplus :: "parser \<Rightarrow> int" where
  "surplus st = loc st - textNewlines (trace st)"

text \<open>
  A state of the main loop after the end of the input was seen, with the view \<open>c\<close> and
  the depth \<open>d\<close> and nothing counted yet; used to state examples.
\<close>

definition loopState :: "string \<Rightarrow> int \<Rightarrow> parser" where
  "loopState c d =
     \<lparr>content = c, source = \<lparr>openOk = True, reads = [], inputArchive = Freed\<rparr>,
      doneReading = True, depth = d, url = [], textSize = 0, loc = 0, exprCount = 0,
      functionCount = 0, classCount = 0, unitCount = 0, declCount = 0, commentCount = 0,
      totalBytes = 0, trace = []\<rparr>"

text \<open>A byte source that is open and will deliver the given reads.\<close>

definition openSource :: "read list \<Rightarrow> byte_source" where
  "openSource rs = \<lparr>openOk = True, reads = rs, inputArchive = Opened\<rparr>"

section \<open>Evaluating the program on a given input\<close>

lemma bindR_weak_cong: "m = m' \<Longrightarrow> bindR m f = bindR m' f"
  by simp

lemma bindR_Inl [simp]: "bindR (Inl e) f = Inl e"
  and bindR_Inr [simp]: "bindR (Inr x) f = f x"
  by (simp_all add: bindR_def)

lemmas token_defs = dispatch_def refill_def characterEntity_def characterRun_def
  findOrRefill_def xmlComment_def cdata_def processingInstruction_def endTag_def startTag_def
  countElement_def parseStartTag_def parseAttributes.simps parseAttribute_def parseNamespace_def
  parseEndTag_def parsePI_def parseEntity_def refillContent_def
  skipWhitespace_def remove_prefix_def at_def substr_def find_first_of_def
  find_first_not_of_def find_char_def xmlNameMask_def WHITESPACE_def NAMEEND_def
  BLOCK_SIZE_def BUFFER_SIZE_def Let_def

lemmas run_defs = main_def parse_def stdin_def preamble_def
  parseXMLDeclaration_def declAttribute2_def declAttribute3_def parseDOCTYPE_def doctypeScan.simps
  mainLoop.simps iteration_def trailingComments.simps skipTrailing_def makeReport_def
  chunked.simps token_defs

section \<open>What one token does to the depth and to the LOC counter\<close>

lemma textNewlines_append [simp]: "textNewlines (es @ fs) = textNewlines es + textNewlines fs"
  by (simp add: textNewlines_def)

lemma textNewlines_simps [simp]:
  "textNewlines [] = 0"
  "textNewlines (e # es) = int (newlinesOf e) + textNewlines es"
  by (simp_all add: textNewlines_def)

lemma parseEntity_values:
  "post (parseEntity c) (\<lambda>(u, e). e \<noteq> [] \<and> (u = ''<'' \<or> u = ''>'' \<or> u = ''&''))"
  unfolding parseEntity_def
  apply (intro post_rules | simp_all only: prod.case)+
  apply auto
  done

lemma characterEntity_effect:
  "post (characterEntity st) (\<lambda>fl. textSize (state_of fl) = textSize st + 1 \<and>
     loc (state_of fl) = loc st \<and> depth (state_of fl) = depth st \<and>
     surplus (state_of fl) = surplus st \<and> (\<exists>s. fl = Next s))"
  unfolding characterEntity_def
  apply (intro post_rules post_weaken [OF parseEntity_values] | simp_all only: prod.case)+
  apply (auto simp: surplus_def)
  done

lemma characterRun_effect:
  "post (characterRun st) (\<lambda>fl. depth (state_of fl) = depth st \<and>
     surplus (state_of fl) = surplus st \<and> (\<exists>s. fl = Next s))"
  unfolding characterRun_def
  apply (intro post_rules | simp_all only: prod.case)+
  apply (auto simp: surplus_def)
  done

lemma xmlComment_effect:
  "post (xmlComment st) (\<lambda>st'. depth st' = depth st \<and> surplus st' = surplus st \<and>
     loc st' = loc st \<and> textSize st' = textSize st)"
  unfolding xmlComment_def
  apply (intro post_rules post_findOrRefill | simp_all only: prod.case)+
  apply (auto simp: surplus_def)
  done

lemma cdata_effect:
  "post (cdata st) (\<lambda>st'. depth st' = depth st \<and> surplus st' = surplus st)"
  unfolding cdata_def
  apply (intro post_rules post_findOrRefill | simp_all only: prod.case)+
  apply (auto simp: surplus_def)
  done

lemma processingInstruction_effect:
  "post (processingInstruction st) (\<lambda>fl. depth (state_of fl) = depth st \<and>
     surplus (state_of fl) = surplus st \<and> loc (state_of fl) = loc st \<and> (\<exists>s. fl = Next s))"
  unfolding processingInstruction_def parsePI_def
  apply (intro post_rules | simp_all only: prod.case)+
  apply (auto simp: surplus_def)
  done

lemma endTag_effect:
  "post (endTag st) (\<lambda>fl. depth (state_of fl) = depth st - 1 \<and>
     surplus (state_of fl) = surplus st \<and> loc (state_of fl) = loc st \<and>
     (case fl of Break s \<Rightarrow> depth s = 0 | Next s \<Rightarrow> depth s \<noteq> 0))"
  unfolding endTag_def parseEndTag_def
  apply (intro post_rules | simp_all only: prod.case)+
  apply (auto simp: surplus_def)
  done

lemma parseNamespace_event: "post (parseNamespace c) (\<lambda>(c', e). newlinesOf e = 0)"
  unfolding parseNamespace_def
  apply (intro post_rules | simp_all only: prod.case)+
  apply auto
  done

lemma parseAttribute_event: "post (parseAttribute c u) (\<lambda>(c', u', e). newlinesOf e = 0)"
  unfolding parseAttribute_def
  apply (intro post_rules | simp_all only: prod.case)+
  apply auto
  done

lemma post_conj: "post m P \<Longrightarrow> post m Q \<Longrightarrow> post m (\<lambda>x. P x \<and> Q x)"
  by (simp add: post_def)

lemma parseAttributes_events:
  "post (parseAttributes inEscape cont u es) (\<lambda>(c', u', es'). textNewlines es' = textNewlines es)"
proof (induction "length cont" arbitrary: cont u es rule: less_induct)
  case less
  show ?case
    apply (subst parseAttributes.simps)
    apply (intro post_rules
        post_weaken [OF post_conj [OF parseNamespace_shrinks parseNamespace_event]]
        post_weaken [OF post_conj [OF parseAttribute_shrinks parseAttribute_event]]
        | simp_all only: prod.case)+
    apply (auto intro!: post_weaken [OF less])
    done
qed

lemma parseStartTag_events:
  "post (parseStartTag cont u) (\<lambda>t. textNewlines (attributes t) = 0)"
  unfolding parseStartTag_def
  apply (intro post_rules post_weaken [OF parseAttributes_events] | simp_all only: prod.case)+
  apply auto
  done

lemma countElement_frame [simp]:
  "depth (countElement n st) = depth st" "loc (countElement n st) = loc st"
  "trace (countElement n st) = trace st" "textSize (countElement n st) = textSize st"
  "url (countElement n st) = url st" "doneReading (countElement n st) = doneReading st"
  by (simp_all add: countElement_def)

lemma startTag_effect:
  "post (startTag st) (\<lambda>fl. \<exists>t. parseStartTag (content st) (url st) = Inr t \<and>
     depth (state_of fl) = (if tagEnd t = Opens then depth st + 1 else depth st) \<and>
     surplus (state_of fl) = surplus st \<and> loc (state_of fl) = loc st \<and>
     (case fl of Break s \<Rightarrow> depth st = 0 \<and> tagEnd t = SelfCloses | Next s \<Rightarrow> tagEnd t = SelfCloses \<longrightarrow> depth st \<noteq> 0))"
proof (rule postI)
  fix fl
  assume a: "startTag st = Inr fl"
  then obtain t where t: "parseStartTag (content st) (url st) = Inr t"
    by (cases "parseStartTag (content st) (url st)") (auto simp: startTag_def)
  then have "textNewlines (attributes t) = 0"
    using postD [OF parseStartTag_events] by blast
  with a t show "\<exists>t. parseStartTag (content st) (url st) = Inr t \<and>
     depth (state_of fl) = (if tagEnd t = Opens then depth st + 1 else depth st) \<and>
     surplus (state_of fl) = surplus st \<and> loc (state_of fl) = loc st \<and>
     (case fl of Break s \<Rightarrow> depth st = 0 \<and> tagEnd t = SelfCloses | Next s \<Rightarrow> tagEnd t = SelfCloses \<longrightarrow> depth st \<noteq> 0)"
    by (cases "tagEnd t") (auto simp: startTag_def surplus_def Let_def split: if_splits)
qed


lemma dispatch_effect:
  "post (dispatch st) (\<lambda>fl. surplus (state_of fl) = surplus st \<and>
     (depth (state_of fl) = depth st + 1 \<or> depth (state_of fl) = depth st \<or>
      depth (state_of fl) = depth st - 1) \<and>
     (1 \<le> depth st \<longrightarrow> (case fl of Next s \<Rightarrow> 1 \<le> depth s | Break s \<Rightarrow> 0 \<le> depth s)))"
  unfolding dispatch_def
  apply (intro post_bindR post_if post_at post_matchAt post_Inl
      post_weaken [OF characterEntity_effect] post_weaken [OF characterRun_effect]
      post_weaken [OF xmlComment_effect] post_weaken [OF cdata_effect]
      post_weaken [OF processingInstruction_effect] post_weaken [OF endTag_effect]
      post_weaken [OF startTag_effect] post_Inr)
  apply (auto split: flow.splits if_splits)
  done

lemma refill_effect:
  "post (refill st) (\<lambda>st'. surplus st' = surplus st \<and> depth st' = depth st)"
  by (rule post_refill) (simp add: surplus_def)

lemma iteration_effect:
  "post (iteration st) (\<lambda>fl. surplus (state_of fl) = surplus st \<and>
     (depth (state_of fl) = depth st + 1 \<or> depth (state_of fl) = depth st \<or>
      depth (state_of fl) = depth st - 1) \<and>
     (1 \<le> depth st \<longrightarrow> (case fl of Next s \<Rightarrow> 1 \<le> depth s | Break s \<Rightarrow> 0 \<le> depth s)))"
  unfolding iteration_def
  apply (intro post_if post_Inr post_bindR post_weaken [OF refill_effect]
      post_weaken [OF dispatch_effect])
  apply (auto split: flow.splits)
  done




section \<open>The LOC counter over a whole run\<close>








section \<open>End tags with any name\<close>

lemma first_of_append_notin:
  "set n \<inter> set cs = {} \<Longrightarrow>
   first_of cs (n @ xs) = map_option (\<lambda>i. i + length n) (first_of cs xs)"
  by (induction n) (auto simp: option.map_comp comp_def option.map_ident)

lemma parseEndTag_any_name:
  assumes "n \<noteq> []" "set n \<inter> set NAMEEND = {}"
  shows "parseEndTag (''</'' @ n @ ''>'' @ after) = Inr (after, EndTag n [] n)"
proof -
  let ?c = "n @ CHR ''>'' # after"
  have f: "find_first_of ?c NAMEEND 0 = Some (length n)"
    using assms(2) by (simp add: find_first_of_def first_of_append_notin) (simp add: NAMEEND_def)
  obtain x xs where n: "n = x # xs"
    using assms(1) by (cases n) auto
  then have c0: "?c ! 0 \<noteq> CHR '':''"
    using assms(2) by (auto simp: NAMEEND_def)
  have w: "skipWhitespace (CHR ''>'' # after) = Inr (CHR ''>'' # after)"
    by (simp add: skipWhitespace_def find_first_not_of_def remove_prefix_def WHITESPACE_def)
  show ?thesis
    using assms(1) c0
    by (simp add: parseEndTag_def remove_prefix_def at_def f w substr_def Let_def
        cong: bindR_weak_cong)
qed

lemma parseEndTag_any_prefixed_name:
  assumes "p \<noteq> []" "set p \<inter> set NAMEEND = {}" "set l \<inter> set NAMEEND = {}"
  shows "parseEndTag (''</'' @ p @ '':'' @ l @ ''>'' @ after) =
           Inr (after, EndTag (p @ '':'' @ l) p l)"
proof -
  let ?c = "p @ CHR '':'' # l @ CHR ''>'' # after"
  have f: "find_first_of ?c NAMEEND 0 = Some (length p)"
    using assms(2) by (simp add: find_first_of_def first_of_append_notin) (simp add: NAMEEND_def)
  have g: "find_first_of ?c NAMEEND (Suc (length p)) = Some (Suc (length p + length l))"
    using assms(3) by (simp add: find_first_of_def first_of_append_notin) (simp add: NAMEEND_def)
  obtain x xs where "p = x # xs"
    using assms(1) by (cases p) auto
  then have c0: "?c ! 0 \<noteq> CHR '':''"
    using assms(2) by (auto simp: NAMEEND_def)
  have w: "skipWhitespace (CHR ''>'' # after) = Inr (CHR ''>'' # after)"
    by (simp add: skipWhitespace_def find_first_not_of_def remove_prefix_def WHITESPACE_def)
  have q: "take (Suc (length p + length l)) ?c = p @ CHR '':'' # l"
    by simp
  have d: "drop (Suc (length p + length l)) ?c = CHR ''>'' # after"
    by simp
  show ?thesis
    using assms(1) c0
    by (simp add: parseEndTag_def remove_prefix_def at_def f g w substr_def Let_def q d
        del: take_append drop_append cong: bindR_weak_cong) simp
qed

section \<open>The stream over a whole run\<close>





















lemma find_sv_replicate:
  "pat \<noteq> [] \<Longrightarrow> x \<notin> set pat \<Longrightarrow> find_sv pat (replicate n x) = None"
proof (induction n)
  case 0
  then show ?case by simp
next
  case (Suc n)
  from Suc.prems obtain p ps where "pat = p # ps" "p \<noteq> x"
    by (cases pat) auto
  with Suc show ?case
    by (auto simp: take_Cons')
qed

lemma report_only_on_success:
  "main src = Finished status out d \<Longrightarrow>
   (status = 0 \<and> out \<noteq> None \<and> d = []) \<or> (status = 1 \<and> out = None)"
  by (auto simp: main_def split: sum.splits stop.splits)

section \<open>Properties of the program\<close>

lemma parse_of_main:
  "main src = Finished status (Some r) d \<Longrightarrow>
   \<exists>st. parse src = Inr st \<and> status = 0 \<and> d = [] \<and> r = makeReport st"
  by (auto simp: main_def split: sum.splits stop.splits)

text \<open>
  C7. Self-closing root: the input \<open><unit/>\<close> parses successfully with unitCount 1 and
  every other counter 0, the report shows 1 file, and the main loop ends at the \<open>/>\<close>:
  in any state at depth 0 whose view starts with \<open><unit/>\<close>, the token leaves the loop by
  \<open>break\<close> with the view standing right behind the \<open>/>\<close>, whatever follows it.
\<close>

theorem self_closing_root:
  "main (stdin True [Bytes ''<unit/>'']) =
     Finished 0 (Some \<lparr>reportUrl = [], reportCharacters = 0, reportLOC = 0, reportFiles = 1,
                       reportClasses = 0, reportFunctions = 0, reportDeclarations = 0,
                       reportExpressions = 0, reportComments = 0\<rparr>) []
   \<and> parse (stdin True [Bytes ''<unit/>'']) =
     Inr \<lparr>content = [], source = \<lparr>openOk = True, reads = [], inputArchive = Freed\<rparr>,
          doneReading = True, depth = 0, url = [], textSize = 0, loc = 0, exprCount = 0,
          functionCount = 0, classCount = 0, unitCount = 1, declCount = 0, commentCount = 0,
          totalBytes = 7,
          trace = [StartTag ''unit'' [] ''unit'', EndTag ''unit'' [] ''unit'']\<rparr>
   \<and> dispatch (st\<lparr>content := ''<unit/>'' @ after, depth := 0\<rparr>) =
     Inr (Break (st\<lparr>content := after, depth := 0, unitCount := unitCount st + 1,
                     trace := trace st @ [StartTag ''unit'' [] ''unit'',
                                          EndTag ''unit'' [] ''unit'']\<rparr>))"
  by (simp add: run_defs cong: bindR_weak_cong)

lemma no_unit_count: "\<exists>st. parse (stdin True [Bytes ''<a/>'']) = Inr st \<and> unitCount st = 0"
  by (simp add: run_defs cong: bindR_weak_cong)

lemma one_unit_count: "\<exists>st. parse (stdin True [Bytes ''<unit/>'']) = Inr st \<and> unitCount st = 1"
  by (simp add: run_defs cong: bindR_weak_cong)

lemma five_units_count:
  "\<exists>st. parse (stdin True [Bytes ''<unit><unit/><unit/><unit/><unit/></unit>'']) = Inr st
        \<and> unitCount st = 5"
  by (simp add: run_defs cong: bindR_weak_cong)

text \<open>
  C6. A run whose parse succeeds with final state \<open>st\<close> exits with status 0 and prints the
  report of \<open>st\<close>, whose files value is \<open>max (unitCount st - 1) 1\<close>: 1 when the final
  unitCount is 0 or 1, and 4 when it is 5. Conversely, a run that prints a report is a
  successful parse, and the files value printed is that of its final unitCount.
\<close>

theorem files_statistic:
  "(parse src = Inr st \<longrightarrow>
      main src = Finished 0 (Some (makeReport st)) []
      \<and> reportFiles (makeReport st) = max (unitCount st - 1) 1
      \<and> (unitCount st = 0 \<longrightarrow> reportFiles (makeReport st) = 1)
      \<and> (unitCount st = 1 \<longrightarrow> reportFiles (makeReport st) = 1)
      \<and> (unitCount st = 5 \<longrightarrow> reportFiles (makeReport st) = 4))
   \<and> (main src = Finished status (Some r) d \<longrightarrow>
      (\<exists>st'. parse src = Inr st' \<and> status = 0 \<and> r = makeReport st'
             \<and> reportFiles r = max (unitCount st' - 1) 1))
   \<and> reportFiles (makeReport (st0\<lparr>unitCount := 0\<rparr>)) = 1
   \<and> reportFiles (makeReport (st0\<lparr>unitCount := 1\<rparr>)) = 1
   \<and> reportFiles (makeReport (st0\<lparr>unitCount := 5\<rparr>)) = 4"
proof -
  have "main src = Finished 0 (Some (makeReport st)) []" if "parse src = Inr st"
    using that by (simp add: main_def)
  moreover have "\<exists>st'. parse src = Inr st' \<and> status = 0 \<and> r = makeReport st'
      \<and> reportFiles r = max (unitCount st' - 1) 1"
    if "main src = Finished status (Some r) d"
    using parse_of_main [OF that] by (auto simp: makeReport_def)
  ultimately show ?thesis
    by (simp add: makeReport_def)
qed

theorem files_statistic_witness:
  "(\<exists>st. parse (stdin True [Bytes ''<a/>'']) = Inr st \<and> unitCount st = 0
         \<and> main (stdin True [Bytes ''<a/>'']) = Finished 0 (Some (makeReport st)) []
         \<and> reportFiles (makeReport st) = 1)
   \<and> (\<exists>st. parse (stdin True [Bytes ''<unit/>'']) = Inr st \<and> unitCount st = 1
         \<and> main (stdin True [Bytes ''<unit/>'']) = Finished 0 (Some (makeReport st)) []
         \<and> reportFiles (makeReport st) = 1)
   \<and> (\<exists>st. parse (stdin True [Bytes ''<unit><unit/><unit/><unit/><unit/></unit>'']) = Inr st
         \<and> unitCount st = 5
         \<and> main (stdin True [Bytes ''<unit><unit/><unit/><unit/><unit/></unit>'']) =
             Finished 0 (Some (makeReport st)) []
         \<and> reportFiles (makeReport st) = 4)"
proof -
  obtain a where a: "parse (stdin True [Bytes ''<a/>'']) = Inr a" "unitCount a = 0"
    using no_unit_count by blast
  obtain b where b: "parse (stdin True [Bytes ''<unit/>'']) = Inr b" "unitCount b = 1"
    using one_unit_count by blast
  obtain c where c:
    "parse (stdin True [Bytes ''<unit><unit/><unit/><unit/><unit/></unit>'']) = Inr c"
    "unitCount c = 5"
    using five_units_count by blast
  have "main (stdin True [Bytes ''<a/>'']) = Finished 0 (Some (makeReport a)) []
        \<and> reportFiles (makeReport a) = 1"
    using files_statistic [where src = "stdin True [Bytes ''<a/>'']" and st = a] a by blast
  moreover have "main (stdin True [Bytes ''<unit/>'']) = Finished 0 (Some (makeReport b)) []
        \<and> reportFiles (makeReport b) = 1"
    using files_statistic [where src = "stdin True [Bytes ''<unit/>'']" and st = b] b by blast
  moreover have
    "main (stdin True [Bytes ''<unit><unit/><unit/><unit/><unit/></unit>'']) =
       Finished 0 (Some (makeReport c)) []
     \<and> reportFiles (makeReport c) = 4"
    using files_statistic
      [where src = "stdin True [Bytes ''<unit><unit/><unit/><unit/><unit/></unit>'']" and st = c] c
    by blast
  ultimately show ?thesis
    using a b c by blast
qed






text \<open>
  C4, as stated, fails: the end tag \<open></a>\<close> met at depth 0 makes the depth -1 (and the
  run goes on to succeed), and a self-closing tag leaves the depth as it is.
\<close>

theorem depth_counterexample:
  "parse (stdin True [Bytes ''</a>'']) =
     Inr \<lparr>content = [], source = \<lparr>openOk = True, reads = [], inputArchive = Freed\<rparr>,
          doneReading = True, depth = - 1, url = [], textSize = 0, loc = 0, exprCount = 0,
          functionCount = 0, classCount = 0, unitCount = 0, declCount = 0, commentCount = 0,
          totalBytes = 4, trace = [EndTag ''a'' [] ''a'']\<rparr>
   \<and> iteration (loopState ''</a>'' 0) = Inr (Next ((loopState [] (- 1))\<lparr>trace := [EndTag ''a'' [] ''a'']\<rparr>))
   \<and> iteration (loopState ''<b/>'' 1) =
       Inr (Next ((loopState [] 1)\<lparr>trace := [StartTag ''b'' [] ''b'', EndTag ''b'' [] ''b'']\<rparr>))"
  by (simp add: run_defs loopState_def cong: bindR_weak_cong)

text \<open>
  C4, amended. The nesting depth is an integer that starts at 0. A start tag adds 1 when
  it is closed by \<open>>\<close> and leaves the depth unchanged otherwise (self-closing tag); an
  end tag subtracts 1; one iteration of the main loop changes the depth by at most 1. While
  the depth is at least 1 it stays at least 1 from one iteration to the next (the loop is
  left when an end tag brings it to 0). Nothing keeps it from going below 0: an end tag
  met at depth 0 makes it -1.
\<close>

theorem depth_steps:
  "(startTag st = Inr fl \<longrightarrow>
      (\<exists>t. parseStartTag (content st) (url st) = Inr t \<and>
           depth (state_of fl) = (if tagEnd t = Opens then depth st + 1 else depth st)))
   \<and> (endTag st = Inr fl \<longrightarrow> depth (state_of fl) = depth st - 1)
   \<and> (iteration st = Inr fl \<longrightarrow>
        (depth (state_of fl) = depth st + 1 \<or> depth (state_of fl) = depth st \<or>
         depth (state_of fl) = depth st - 1) \<and>
        (1 \<le> depth st \<longrightarrow> (case fl of Next s \<Rightarrow> 1 \<le> depth s | Break s \<Rightarrow> 0 \<le> depth s)))
   \<and> dispatch (st\<lparr>content := ''<b>'' @ after\<rparr>) =
       Inr (Next (st\<lparr>content := after, depth := depth st + 1,
                      trace := trace st @ [StartTag ''b'' [] ''b'']\<rparr>))
   \<and> dispatch (st\<lparr>content := ''<b/>'' @ after, depth := 1\<rparr>) =
       Inr (Next (st\<lparr>content := after, depth := 1,
                      trace := trace st @ [StartTag ''b'' [] ''b'', EndTag ''b'' [] ''b'']\<rparr>))
   \<and> dispatch (st\<lparr>content := ''</b>'' @ after, depth := 2\<rparr>) =
       Inr (Next (st\<lparr>content := after, depth := 1, trace := trace st @ [EndTag ''b'' [] ''b'']\<rparr>))
   \<and> dispatch (st\<lparr>content := ''</b>'' @ after, depth := 0\<rparr>) =
       Inr (Next (st\<lparr>content := after, depth := - 1, trace := trace st @ [EndTag ''b'' [] ''b'']\<rparr>))"
proof -
  have a: "\<exists>t. parseStartTag (content st) (url st) = Inr t \<and>
           depth (state_of fl) = (if tagEnd t = Opens then depth st + 1 else depth st)"
    if "startTag st = Inr fl"
    using postD [OF startTag_effect that] by blast
  have b: "depth (state_of fl) = depth st - 1" if "endTag st = Inr fl"
    using postD [OF endTag_effect that] by simp
  have c: "(depth (state_of fl) = depth st + 1 \<or> depth (state_of fl) = depth st \<or>
         depth (state_of fl) = depth st - 1) \<and>
        (1 \<le> depth st \<longrightarrow> (case fl of Next s \<Rightarrow> 1 \<le> depth s | Break s \<Rightarrow> 0 \<le> depth s))"
    if "iteration st = Inr fl"
    using postD [OF iteration_effect that] by simp
  have d: "dispatch (st\<lparr>content := ''<b>'' @ after\<rparr>) =
       Inr (Next (st\<lparr>content := after, depth := depth st + 1,
                      trace := trace st @ [StartTag ''b'' [] ''b'']\<rparr>))"
    by (simp add: token_defs cong: bindR_weak_cong)
  have e: "dispatch (st\<lparr>content := ''<b/>'' @ after, depth := 1\<rparr>) =
       Inr (Next (st\<lparr>content := after, depth := 1,
                      trace := trace st @ [StartTag ''b'' [] ''b'', EndTag ''b'' [] ''b'']\<rparr>))"
    by (simp add: token_defs cong: bindR_weak_cong)
  have f: "dispatch (st\<lparr>content := ''</b>'' @ after, depth := 2\<rparr>) =
       Inr (Next (st\<lparr>content := after, depth := 1, trace := trace st @ [EndTag ''b'' [] ''b'']\<rparr>))"
    by (simp add: token_defs cong: bindR_weak_cong)
  have g: "dispatch (st\<lparr>content := ''</b>'' @ after, depth := 0\<rparr>) =
       Inr (Next (st\<lparr>content := after, depth := - 1, trace := trace st @ [EndTag ''b'' [] ''b'']\<rparr>))"
    by (simp add: token_defs cong: bindR_weak_cong)
  from a b c d e f g show ?thesis by blast
qed

theorem depth_steps_witness:
  "startTag (loopState ''<b>'' 1) = Inr (Next ((loopState [] 2)\<lparr>trace := [StartTag ''b'' [] ''b'']\<rparr>))
   \<and> endTag (loopState ''</b>'' 2) = Inr (Next ((loopState [] 1)\<lparr>trace := [EndTag ''b'' [] ''b'']\<rparr>))
   \<and> iteration (loopState ''</b>'' 1) = Inr (Break ((loopState [] 0)\<lparr>trace := [EndTag ''b'' [] ''b'']\<rparr>))
   \<and> (1::int) \<le> 1
   \<and> (\<exists>t. parseStartTag ''<b>'' [] = Inr t \<and> tagEnd t = Opens)"
  using
    depth_steps [of "loopState ''<b>'' 1" "Next ((loopState [] 2)\<lparr>trace := [StartTag ''b'' [] ''b'']\<rparr>)"]
    depth_steps [of "loopState ''</b>'' 2" "Next ((loopState [] 1)\<lparr>trace := [EndTag ''b'' [] ''b'']\<rparr>)"]
    depth_steps [of "loopState ''</b>'' 1" "Break ((loopState [] 0)\<lparr>trace := [EndTag ''b'' [] ''b'']\<rparr>)"]
  by (simp add: token_defs iteration_def loopState_def cong: bindR_weak_cong)


text \<open>
  C10. The name of an end tag is never compared with the element it closes: in every
  state, an end tag with any well-shaped name (non-empty, free of the name delimiters,
  with or without a prefix) is consumed whole and subtracts 1 from the depth, leaving the
  loop when the depth becomes 0. So \<open><unit></foo>\<close> is accepted with the same report as
  \<open><unit></unit>\<close>.
\<close>

theorem end_tag_name_not_compared:
  "(n \<noteq> [] \<and> set n \<inter> set NAMEEND = {} \<longrightarrow>
      dispatch (st\<lparr>content := ''</'' @ n @ ''>'' @ after\<rparr>) =
        Inr ((if depth st - 1 = 0 then Break else Next)
               (st\<lparr>content := after, depth := depth st - 1,
                   trace := trace st @ [EndTag n [] n]\<rparr>)))
   \<and> (p \<noteq> [] \<and> set p \<inter> set NAMEEND = {} \<and> set l \<inter> set NAMEEND = {} \<longrightarrow>
      dispatch (st\<lparr>content := ''</'' @ p @ '':'' @ l @ ''>'' @ after\<rparr>) =
        Inr ((if depth st - 1 = 0 then Break else Next)
               (st\<lparr>content := after, depth := depth st - 1,
                   trace := trace st @ [EndTag (p @ '':'' @ l) p l]\<rparr>)))
   \<and> main (stdin True [Bytes ''<unit></foo>'']) =
       Finished 0 (Some \<lparr>reportUrl = [], reportCharacters = 0, reportLOC = 0, reportFiles = 1,
                         reportClasses = 0, reportFunctions = 0, reportDeclarations = 0,
                         reportExpressions = 0, reportComments = 0\<rparr>) []
   \<and> main (stdin True [Bytes ''<unit></unit>'']) = main (stdin True [Bytes ''<unit></foo>''])"
proof -
  have "dispatch (st\<lparr>content := ''</'' @ n @ ''>'' @ after\<rparr>) =
        Inr ((if depth st - 1 = 0 then Break else Next)
               (st\<lparr>content := after, depth := depth st - 1,
                   trace := trace st @ [EndTag n [] n]\<rparr>))"
    if "n \<noteq> []" "set n \<inter> set NAMEEND = {}"
    using parseEndTag_any_name [OF that, of after]
    by (simp add: dispatch_def endTag_def at_def Let_def cong: bindR_weak_cong)
  moreover have "dispatch (st\<lparr>content := ''</'' @ p @ '':'' @ l @ ''>'' @ after\<rparr>) =
        Inr ((if depth st - 1 = 0 then Break else Next)
               (st\<lparr>content := after, depth := depth st - 1,
                   trace := trace st @ [EndTag (p @ '':'' @ l) p l]\<rparr>))"
    if "p \<noteq> []" "set p \<inter> set NAMEEND = {}" "set l \<inter> set NAMEEND = {}"
    using parseEndTag_any_prefixed_name [OF that, of after]
    by (simp add: dispatch_def endTag_def at_def Let_def cong: bindR_weak_cong)
  moreover have "main (stdin True [Bytes ''<unit></foo>'']) =
       Finished 0 (Some \<lparr>reportUrl = [], reportCharacters = 0, reportLOC = 0, reportFiles = 1,
                         reportClasses = 0, reportFunctions = 0, reportDeclarations = 0,
                         reportExpressions = 0, reportComments = 0\<rparr>) []"
    by (simp add: run_defs cong: bindR_weak_cong)
  moreover have "main (stdin True [Bytes ''<unit></unit>'']) =
       Finished 0 (Some \<lparr>reportUrl = [], reportCharacters = 0, reportLOC = 0, reportFiles = 1,
                         reportClasses = 0, reportFunctions = 0, reportDeclarations = 0,
                         reportExpressions = 0, reportComments = 0\<rparr>) []"
    by (simp add: run_defs cong: bindR_weak_cong)
  ultimately show ?thesis by simp
qed

theorem end_tag_name_not_compared_witness:
  "''foo'' \<noteq> [] \<and> set ''foo'' \<inter> set NAMEEND = {}
   \<and> dispatch (loopState ''</foo>rest'' 2) =
       Inr (Next ((loopState ''rest'' 1)\<lparr>trace := [EndTag ''foo'' [] ''foo'']\<rparr>))
   \<and> ''cpp'' \<noteq> [] \<and> set ''cpp'' \<inter> set NAMEEND = {} \<and> set ''if'' \<inter> set NAMEEND = {}
   \<and> dispatch (loopState ''</cpp:if>rest'' 2) =
       Inr (Next ((loopState ''rest'' 1)\<lparr>trace := [EndTag ''cpp:if'' ''cpp'' ''if'']\<rparr>))"
  using end_tag_name_not_compared
    [where n = "''foo''" and st = "loopState [] 2" and after = "''rest''" and p = "''cpp''"
       and l = "''if''"]
  by (simp add: loopState_def NAMEEND_def)


text \<open>
  C8. A processing instruction must have its \<open>?>\<close> in the view: when the bytes after
  \<open><?\<close> do not contain it, the token ends the run with the diagnostic of line 395,
  whatever the byte source still holds, and so does the whole iteration when its top makes
  no refill (input done, or at least a block in the view). A comment or a CDATA section in
  the same situation is completed by one more read.
\<close>

theorem pi_terminator_not_retried:
  "(find_sv ''?>'' body = None \<longrightarrow>
      dispatch (st\<lparr>content := ''<?'' @ body\<rparr>) =
        Inl (Exit ''parser error: Incomplete XML declaration''))
   \<and> (find_sv ''?>'' body = None \<and> (doneReading st \<or> BLOCK_SIZE \<le> length (''<?'' @ body)) \<longrightarrow>
      iteration (st\<lparr>content := ''<?'' @ body\<rparr>) =
        Inl (Exit ''parser error: Incomplete XML declaration''))
   \<and> dispatch ((loopState ''<?pi'' 1)\<lparr>source := openSource [Bytes '' x?>''],
                                        doneReading := False\<rparr>) =
       Inl (Exit ''parser error: Incomplete XML declaration'')
   \<and> dispatch ((loopState ''<!--c'' 1)\<lparr>source := openSource [Bytes '' x-->''],
                                         doneReading := False\<rparr>) =
       Inr (Next ((loopState [] 1)\<lparr>source := openSource [], doneReading := False,
                                     totalBytes := 5, trace := [Comment ''c x'']\<rparr>))
   \<and> dispatch ((loopState ''<![CDATA[c'' 1)\<lparr>source := openSource [Bytes '' x]]>''],
                                              doneReading := False\<rparr>) =
       Inr (Next ((loopState [] 1)\<lparr>source := openSource [], doneReading := False,
                                     totalBytes := 5, textSize := 3,
                                     trace := [CData ''c x'']\<rparr>))"
proof -
  have a: "dispatch (st\<lparr>content := ''<?'' @ body\<rparr>) =
        Inl (Exit ''parser error: Incomplete XML declaration'')"
    if "find_sv ''?>'' body = None" for st
    using that
    by (simp add: dispatch_def processingInstruction_def parsePI_def at_def remove_prefix_def
        cong: bindR_weak_cong)
  have b: "iteration (st\<lparr>content := ''<?'' @ body\<rparr>) =
        Inl (Exit ''parser error: Incomplete XML declaration'')"
    if "find_sv ''?>'' body = None" "doneReading st \<or> BLOCK_SIZE \<le> length (''<?'' @ body)"
    using that a [OF that(1), of st] by (auto simp: iteration_def)
  have c: "dispatch ((loopState ''<!--c'' 1)\<lparr>source := openSource [Bytes '' x-->''],
                                         doneReading := False\<rparr>) =
       Inr (Next ((loopState [] 1)\<lparr>source := openSource [], doneReading := False,
                                     totalBytes := 5, trace := [Comment ''c x'']\<rparr>))"
    by (simp add: token_defs loopState_def openSource_def cong: bindR_weak_cong)
  have d: "dispatch ((loopState ''<![CDATA[c'' 1)\<lparr>source := openSource [Bytes '' x]]>''],
                                              doneReading := False\<rparr>) =
       Inr (Next ((loopState [] 1)\<lparr>source := openSource [], doneReading := False,
                                     totalBytes := 5, textSize := 3,
                                     trace := [CData ''c x'']\<rparr>))"
    by (simp add: token_defs loopState_def openSource_def cong: bindR_weak_cong)
  have e: "dispatch ((loopState ''<?pi'' 1)\<lparr>source := openSource [Bytes '' x?>''],
                                        doneReading := False\<rparr>) =
       Inl (Exit ''parser error: Incomplete XML declaration'')"
    by (simp add: token_defs loopState_def openSource_def cong: bindR_weak_cong)
  from a b c d e show ?thesis by blast
qed

theorem pi_terminator_not_retried_witness:
  "find_sv ''?>'' ''pi'' = None
   \<and> dispatch ((loopState ''<?pi'' 1)\<lparr>source := openSource [Bytes '' x?>''],
                                        doneReading := False\<rparr>) =
       Inl (Exit ''parser error: Incomplete XML declaration'')
   \<and> doneReading (loopState [] 1)
   \<and> iteration (loopState ''<?pi'' 1) = Inl (Exit ''parser error: Incomplete XML declaration'')"
  using
    pi_terminator_not_retried [where body = "''pi''"
      and st = "(loopState [] 1)\<lparr>source := openSource [Bytes '' x?>''], doneReading := False\<rparr>"]
    pi_terminator_not_retried [where body = "''pi''" and st = "loopState [] 1"]
  by (simp add: loopState_def)






text \<open>
  C3: the code breaks the claim. \<open>refillContent\<close> asks for \<open>BUFFER_SIZE - BLOCK_SIZE\<close>
  bytes whatever the size of the unconsumed view. At the top of the main loop the view is
  shorter than a block, so the buffer holds the result; in the retry of a comment or CDATA
  section the view can be longer. A view of 4097 bytes and a full read write past the end
  of the buffer, and so does the run on a document whose comment is longer than the first
  read.
\<close>

theorem refill_overflows_buffer:
  "refillContent (replicate 4097 (CHR ''x''))
       (openSource [Bytes (replicate (BUFFER_SIZE - BLOCK_SIZE) (CHR ''y''))]) =
     Inl (Undefined BufferOverflow)
   \<and> main (stdin True [Bytes (''<a><!--'' @ replicate 1044473 (CHR ''x'')),
                        Bytes (replicate 10000 (CHR ''x'') @ ''--></a>'')]) =
     Faulted BufferOverflow"
  by (simp add: run_defs openSource_def find_sv_replicate cong: bindR_weak_cong)


text \<open>
  C9: the code breaks the claim. An unterminated comment (or CDATA section) met after the
  end of the input was seen makes the retry call \<open>refillContent\<close> on the archive handle
  that the read returning 0 has freed, instead of reaching the diagnostic and
  \<open>return 1\<close> two lines further. When the input has not ended yet the same construct
  exits with status 1, as the other malformed inputs of the claim do.
\<close>

theorem unterminated_comment_after_end_of_input:
  "main (stdin True [Bytes ''<a><!-- x'']) = Faulted UseAfterFree
   \<and> main (stdin True [Bytes ''<a><![CDATA[ x'']) = Faulted UseAfterFree
   \<and> main (stdin True [Bytes ''<a>'', Bytes ''<!-'', Bytes ''-x'']) =
       Finished 1 None ''parser error : Unterminated XML comment''
   \<and> main (stdin True [Bytes (''<a b='' @ [CHR 0x22] @ ''c></a>'')]) =
       Finished 1 None ''parser error : attribute b missing delimiter''
   \<and> main (stdin True [Bytes ''<a></>'']) =
       Finished 1 None ''parser error: EndTag: invalid element name''
   \<and> main (stdin True []) = Finished 1 None ''parser error : Empty file''
   \<and> main (stdin False []) = Finished 1 None ''parser error : File input error''
   \<and> main (stdin True [Bytes ''<a>'', ReadError]) =
       Finished 1 None ''parser error : File input error''"
  by (simp add: run_defs cong: bindR_weak_cong)


end
